theory Spec2Isabelle
  imports Complex_Main
begin

section \<open>Values exchanged with the ORM and the task queue\<close>

text \<open>
  JSON payloads (\<^verbatim>\<open>agent_response\<close>, action parameters) are Python values built from
  \<^verbatim>\<open>None\<close>, booleans, numbers, strings, lists and dictionaries. A dictionary is an
  association list; a lookup takes the first binding of the key.
\<close>

datatype json =
    JNull
  | JBool bool
  | JNum real
  | JStr string
  | JList "json list"
  | JDict "(string \<times> json) list"

type_synonym jdict = "(string \<times> json) list"

text \<open>Python truthiness (\<^verbatim>\<open>if x:\<close>) of a JSON value.\<close>

fun truthy :: "json \<Rightarrow> bool" where
  "truthy JNull = False"
| "truthy (JBool b) = b"
| "truthy (JNum r) = (r \<noteq> 0)"
| "truthy (JStr s) = (s \<noteq> [])"
| "truthy (JList xs) = (xs \<noteq> [])"
| "truthy (JDict kvs) = (kvs \<noteq> [])"

text \<open>\<^verbatim>\<open>d.get(k, default)\<close> and \<^verbatim>\<open>d.get(k)\<close> on a dictionary.\<close>

definition dict_get :: "jdict \<Rightarrow> string \<Rightarrow> json \<Rightarrow> json" where
  "dict_get d k dflt = (case map_of d k of None \<Rightarrow> dflt | Some v \<Rightarrow> v)"

text \<open>\<^verbatim>\<open>a or b\<close>.\<close>

definition py_or :: "json \<Rightarrow> json \<Rightarrow> json" where
  "py_or a b = (if truthy a then a else b)"

text \<open>
  An f-string that interpolates a JSON value is kept as its template and its arguments
  (\<open>Fmt\<close>); a value stored as it is, is \<open>Val\<close>. Non-ASCII pictograms that open some
  messages of the source are left out of the templates.
\<close>

datatype pystr = Val json | Fmt string "json list"

definition nl :: string where
  "nl = [CHR 0x0A]"

text \<open>\<^verbatim>\<open>"\n".join(xs)\<close> on strings.\<close>

fun join_lines :: "string list \<Rightarrow> string" where
  "join_lines [] = []"
| "join_lines [x] = x"
| "join_lines (x # y # ys) = x @ nl @ join_lines (y # ys)"

text \<open>The strings of a list of JSON values; \<open>None\<close> when one element is not a string
  (\<^verbatim>\<open>str.join\<close> raises \<^verbatim>\<open>TypeError\<close> there).\<close>

fun json_strings :: "json list \<Rightarrow> string list option" where
  "json_strings [] = Some []"
| "json_strings (JStr s # xs) = (case json_strings xs of None \<Rightarrow> None | Some ss \<Rightarrow> Some (s # ss))"
| "json_strings (_ # xs) = None"

section \<open>The data model (tickets/models.py)\<close>

text \<open>
  A user is referred to by its primary key. The user model of the repository
  (\<^verbatim>\<open>base.User\<close>, the \<^verbatim>\<open>AUTH_USER_MODEL\<close> of the settings) has the key \<^verbatim>\<open>id\<close> and neither a
  field nor an attribute \<^verbatim>\<open>user_id\<close>: reading \<^verbatim>\<open>user_id\<close> of a user raises
  \<^verbatim>\<open>AttributeError\<close>, and a query on \<^verbatim>\<open>user_id\<close> raises \<^verbatim>\<open>FieldError\<close>. Times are points of
  a discrete clock.
\<close>

type_synonym user_id = string
type_synonym time = nat

text \<open>
  A state snapshot (\<^verbatim>\<open>before_state\<close>, \<^verbatim>\<open>after_state\<close>) is a JSON object whose values are
  strings or \<^verbatim>\<open>null\<close>: the shape the action handlers write. \<open>None\<close> as a value is JSON
  \<^verbatim>\<open>null\<close>; the whole column is nullable.
\<close>

type_synonym snapshot = "(string \<times> string option) list"

record ticket =
  ticket_id :: nat
  user :: user_id
  issue_type :: string
  status :: string
  description :: "string option"
  screenshot :: "string option"
  assigned_to :: "user_id option"
  category :: string
  tags :: "string list"
  created_at :: time
  updated_at :: time
  agent_response :: json
  agent_processed :: bool

record ticket_interaction =
  ti_ticket :: nat
  ti_user :: user_id
  interaction_type :: string
  content :: pystr
  ti_created_at :: time

record ticket_resolution =
  tr_ticket :: nat
  autonomous_action :: string
  resolution_confirmed :: "bool option"
  user_feedback_text :: string
  satisfaction_score :: "int option"
  followup_sent_at :: "time option"
  response_received_at :: "time option"
  reopened :: bool
  reopened_at :: "time option"
  reopened_reason :: string
  tr_created_at :: time
  tr_updated_at :: time

text \<open>The primary key of an action-history row (a random UUID in the source) is a
  number that is fresh when the row is created.\<close>

record action_history =
  ah_id :: nat
  ah_ticket :: nat
  action_type :: string
  action_params :: jdict
  executed_at :: time
  executed_by :: string
  confidence_score :: json
  agent_reasoning :: pystr
  rollback_possible :: bool
  rollback_steps :: json
  rolled_back :: bool
  rolled_back_at :: "time option"
  rolled_back_by :: "user_id option"
  rollback_reason :: string
  before_state :: "snapshot option"
  after_state :: "snapshot option"

text \<open>Rows of the knowledge-base and solution tables, as far as the tickets
  application writes them.\<close>

record kb_article =
  kb_title :: string
  kb_content :: pystr
  kb_tags :: "string list"

record solution =
  sol_ticket :: nat
  sol_steps :: json
  sol_worked :: bool
  sol_created_by :: user_id

text \<open>Messages handed to the chat integration and tasks handed to the task queue.\<close>

record notification =
  n_kind :: string
  n_recipient :: user_id
  n_ticket :: nat
  n_params :: jdict

datatype schedule = Countdown nat | Eta json

record task =
  task_name :: string
  task_ticket :: nat
  task_params :: "jdict option"
  task_when :: schedule

text \<open>The store: every table is the list of its rows, in insertion order.\<close>

record db =
  tickets :: "ticket list"
  users :: "user_id list"
  histories :: "action_history list"
  interactions :: "ticket_interaction list"
  resolutions :: "ticket_resolution list"
  kb_articles :: "kb_article list"
  solutions :: "solution list"
  slack_token :: "string option"
  outbox :: "notification list"
  scheduled :: "task list"

section \<open>Exceptions and the environment\<close>

datatype exn =
    DoesNotExist | IntegrityError | DatabaseError | TypeError | DeliveryError
  | AttributeError | FieldError

text \<open>
  Every access to the store or to a collaborator may raise. The environment says which kind
  of access fails during a call, and gives the reading of the clock
  (\<^verbatim>\<open>timezone.now()\<close>).
\<close>

datatype access =
    TicketGet | TicketSave | KBWrite | SolutionWrite
  | HistoryGet | HistoryCreate | HistorySave
  | InteractionCreate | ResolutionGetOrCreate | ResolutionSave
  | Notify | Schedule

record env =
  faults :: "access \<Rightarrow> bool"
  now :: time

definition no_faults :: "access \<Rightarrow> bool" where
  "no_faults a = False"

text \<open>A computation maps the store to a result or an exception, and the store it leaves.\<close>

type_synonym 'a res = "(exn + 'a) \<times> db"

definition returning :: "'a \<Rightarrow> db \<Rightarrow> 'a res" where
  "returning x d = (Inr x, d)"

definition raising :: "exn \<Rightarrow> db \<Rightarrow> 'a res" where
  "raising e d = (Inl e, d)"

text \<open>Sequencing: an exception of the first part skips the second.\<close>

definition seq :: "(db \<Rightarrow> 'a res) \<Rightarrow> ('a \<Rightarrow> db \<Rightarrow> 'b res) \<Rightarrow> db \<Rightarrow> 'b res" where
  "seq m f d = (case m d of (Inl e, d') \<Rightarrow> (Inl e, d') | (Inr x, d') \<Rightarrow> f x d')"

text \<open>\<^verbatim>\<open>try: ...; return True  except Exception: return False\<close>.\<close>

definition succeeds :: "(db \<Rightarrow> 'a res) \<Rightarrow> db \<Rightarrow> bool \<times> db" where
  "succeeds m d = (case m d of (Inl e, d') \<Rightarrow> (False, d') | (Inr x, d') \<Rightarrow> (True, d'))"

text \<open>An access that fails when the environment says so.\<close>

definition guarded :: "env \<Rightarrow> access \<Rightarrow> (db \<Rightarrow> 'a res) \<Rightarrow> db \<Rightarrow> 'a res" where
  "guarded e a m d = (if faults e a then (Inl DatabaseError, d) else m d)"

section \<open>Table operations\<close>

text \<open>\<^verbatim>\<open>save()\<close> of a row with a primary key: update the row with that key, insert
  when there is none.\<close>

definition upsert :: "('a \<Rightarrow> 'k) \<Rightarrow> 'a \<Rightarrow> 'a list \<Rightarrow> 'a list" where
  "upsert key r rows =
     (if key r \<in> set (map key rows)
      then map (\<lambda>x. if key x = key r then r else x) rows
      else rows @ [r])"

definition fresh_id :: "nat list \<Rightarrow> nat" where
  "fresh_id ks = Suc (foldr max ks 0)"

definition find_ticket :: "db \<Rightarrow> nat \<Rightarrow> ticket option" where
  "find_ticket d tid = find (\<lambda>t. ticket_id t = tid) (tickets d)"

definition find_history :: "db \<Rightarrow> nat \<Rightarrow> action_history option" where
  "find_history d hid = find (\<lambda>h. ah_id h = hid) (histories d)"

definition find_resolution :: "db \<Rightarrow> nat \<Rightarrow> ticket_resolution option" where
  "find_resolution d tid = find (\<lambda>r. tr_ticket r = tid) (resolutions d)"

text \<open>\<^verbatim>\<open>Ticket.objects.get(ticket_id=...)\<close>.\<close>

definition ticket_get :: "env \<Rightarrow> nat \<Rightarrow> db \<Rightarrow> ticket res" where
  "ticket_get e tid =
     guarded e TicketGet (\<lambda>d. case find_ticket d tid of
        None \<Rightarrow> (Inl DoesNotExist, d) | Some t \<Rightarrow> (Inr t, d))"

text \<open>\<^verbatim>\<open>ActionHistory.objects.get(id=...)\<close>.\<close>

definition history_get :: "env \<Rightarrow> nat \<Rightarrow> db \<Rightarrow> action_history res" where
  "history_get e hid =
     guarded e HistoryGet (\<lambda>d. case find_history d hid of
        None \<Rightarrow> (Inl DoesNotExist, d) | Some h \<Rightarrow> (Inr h, d))"

text \<open>\<^verbatim>\<open>User.objects.get(user_id=...)\<close>: the user model has no field \<^verbatim>\<open>user_id\<close>, so
  the query cannot be built and the call raises \<^verbatim>\<open>FieldError\<close>, whatever the store holds.\<close>

definition user_get :: "env \<Rightarrow> user_id \<Rightarrow> db \<Rightarrow> user_id res" where
  "user_get e u = raising FieldError"

text \<open>\<^verbatim>\<open>ticket.assigned_to.user_id if ticket.assigned_to else None\<close>: none for a ticket
  without assignee; for an assigned ticket the attribute does not exist.\<close>

definition assignee_user_id :: "ticket \<Rightarrow> db \<Rightarrow> user_id option res" where
  "assignee_user_id t =
     (case assigned_to t of None \<Rightarrow> returning None | Some u \<Rightarrow> raising AttributeError)"

text \<open>\<^verbatim>\<open>ActionHistory.objects.create(...)\<close>: the row gets a fresh key and its execution
  time (\<^verbatim>\<open>auto_now_add\<close>).\<close>

definition history_create :: "env \<Rightarrow> action_history \<Rightarrow> db \<Rightarrow> unit res" where
  "history_create e h =
     guarded e HistoryCreate (\<lambda>d.
        (Inr (), d\<lparr>histories := histories d @
            [h\<lparr>ah_id := fresh_id (map ah_id (histories d)), executed_at := now e\<rparr>]\<rparr>))"

text \<open>\<^verbatim>\<open>action_history.save()\<close>.\<close>

definition history_save :: "env \<Rightarrow> action_history \<Rightarrow> db \<Rightarrow> unit res" where
  "history_save e h =
     guarded e HistorySave (\<lambda>d. (Inr (), d\<lparr>histories := upsert ah_id h (histories d)\<rparr>))"

text \<open>\<^verbatim>\<open>TicketInteraction.objects.create(...)\<close>.\<close>

definition interaction_create ::
  "env \<Rightarrow> nat \<Rightarrow> user_id \<Rightarrow> string \<Rightarrow> pystr \<Rightarrow> db \<Rightarrow> unit res" where
  "interaction_create e tid u ty c =
     guarded e InteractionCreate (\<lambda>d.
        (Inr (), d\<lparr>interactions := interactions d @
            [\<lparr>ti_ticket = tid, ti_user = u, interaction_type = ty, content = c,
              ti_created_at = now e\<rparr>]\<rparr>))"

text \<open>\<^verbatim>\<open>TicketResolution.objects.get_or_create(ticket=..., defaults={'autonomous_action': a})\<close>:
  the existing row, or a new one with the defaults of the model.\<close>

definition new_resolution :: "env \<Rightarrow> nat \<Rightarrow> string \<Rightarrow> ticket_resolution" where
  "new_resolution e tid a =
     \<lparr>tr_ticket = tid, autonomous_action = a, resolution_confirmed = None,
      user_feedback_text = [], satisfaction_score = None, followup_sent_at = None,
      response_received_at = None, reopened = False, reopened_at = None,
      reopened_reason = [], tr_created_at = now e, tr_updated_at = now e\<rparr>"

definition resolution_get_or_create ::
  "env \<Rightarrow> nat \<Rightarrow> string \<Rightarrow> db \<Rightarrow> ticket_resolution res" where
  "resolution_get_or_create e tid a =
     guarded e ResolutionGetOrCreate (\<lambda>d. case find_resolution d tid of
        Some r \<Rightarrow> (Inr r, d)
      | None \<Rightarrow> (Inr (new_resolution e tid a),
                  d\<lparr>resolutions := resolutions d @ [new_resolution e tid a]\<rparr>))"

text \<open>\<^verbatim>\<open>resolution.save()\<close>; \<^verbatim>\<open>updated_at\<close> is \<^verbatim>\<open>auto_now\<close>.\<close>

definition resolution_save :: "env \<Rightarrow> ticket_resolution \<Rightarrow> db \<Rightarrow> unit res" where
  "resolution_save e r =
     guarded e ResolutionSave (\<lambda>d.
        (Inr (), d\<lparr>resolutions := upsert tr_ticket (r\<lparr>tr_updated_at := now e\<rparr>) (resolutions d)\<rparr>))"

text \<open>
  The notification functions of integrations/views.py return at once when no chat token is
  stored; otherwise they post one message. The message is kept by its kind, recipient,
  ticket and parameters.
\<close>

definition notify :: "env \<Rightarrow> string \<Rightarrow> user_id \<Rightarrow> nat \<Rightarrow> jdict \<Rightarrow> db \<Rightarrow> unit res" where
  "notify e kind u tid params d =
     (case slack_token d of
        None \<Rightarrow> (Inr (), d)
      | Some tok \<Rightarrow>
          (if faults e Notify then (Inl DeliveryError, d)
           else (Inr (), d\<lparr>outbox := outbox d @
             [\<lparr>n_kind = kind, n_recipient = u, n_ticket = tid, n_params = params\<rparr>]\<rparr>)))"

text \<open>\<^verbatim>\<open>task.apply_async(args=..., countdown=... | eta=...)\<close>.\<close>

definition apply_async :: "env \<Rightarrow> task \<Rightarrow> db \<Rightarrow> unit res" where
  "apply_async e t =
     guarded e Schedule (\<lambda>d. (Inr (), d\<lparr>scheduled := scheduled d @ [t]\<rparr>))"

section \<open>Model methods (tickets/models.py)\<close>

text \<open>
  \<^verbatim>\<open>Ticket.sync_to_knowledge_base\<close>: for a resolved ticket with an agent response, create the
  article titled \<^verbatim>\<open>Resolved: {issue_type}\<close>, or overwrite the content and tags of the
  existing one.
\<close>

definition sync_to_knowledge_base :: "env \<Rightarrow> ticket \<Rightarrow> db \<Rightarrow> unit res" where
  "sync_to_knowledge_base e t d =
     (if status t = ''resolved'' \<and> truthy (agent_response t) then
        (let title = ''Resolved: '' @ issue_type t;
             body = Fmt (''Description: {}'' @ nl @ nl @ ''Agent Response: {}'')
                      [(case description t of None \<Rightarrow> JNull | Some s \<Rightarrow> JStr s), agent_response t];
             tgs = [category t] @ (if tags t \<noteq> [] then tags t else [])
         in guarded e KBWrite (\<lambda>d.
              (case find (\<lambda>a. kb_title a = title) (kb_articles d) of
                 None \<Rightarrow> (Inr (), d\<lparr>kb_articles := kb_articles d @
                             [\<lparr>kb_title = title, kb_content = body, kb_tags = tgs\<rparr>]\<rparr>)
               | Some a \<Rightarrow> (Inr (), d\<lparr>kb_articles :=
                             upsert kb_title (a\<lparr>kb_content := body, kb_tags := tgs\<rparr>) (kb_articles d)\<rparr>))) d)
      else (Inr (), d))"

text \<open>The steps that \<^verbatim>\<open>Ticket.save\<close> reads from the agent response:
  \<^verbatim>\<open>resolution_steps\<close> or \<^verbatim>\<open>steps\<close>, a list of strings joined into one string.\<close>

definition response_steps :: "json \<Rightarrow> exn + json" where
  "response_steps r =
     (case r of
        JDict kvs \<Rightarrow>
          (let steps = py_or (dict_get kvs ''resolution_steps'' JNull) (dict_get kvs ''steps'' JNull)
           in (case steps of
                 JList xs \<Rightarrow>
                   (if xs \<noteq> [] then
                      (case json_strings xs of
                         None \<Rightarrow> Inl TypeError
                       | Some ss \<Rightarrow> Inr (JStr (join_lines ss)))
                    else Inr steps)
               | _ \<Rightarrow> Inr steps))
      | _ \<Rightarrow> Inr JNull)"

text \<open>\<^verbatim>\<open>Solution.objects.get_or_create(ticket=self, defaults=...)\<close>.\<close>

definition solution_get_or_create :: "env \<Rightarrow> ticket \<Rightarrow> json \<Rightarrow> db \<Rightarrow> unit res" where
  "solution_get_or_create e t steps =
     guarded e SolutionWrite (\<lambda>d.
        (case find (\<lambda>s. sol_ticket s = ticket_id t) (solutions d) of
           Some s \<Rightarrow> (Inr (), d)
         | None \<Rightarrow> (Inr (), d\<lparr>solutions := solutions d @
              [\<lparr>sol_ticket = ticket_id t, sol_steps = steps, sol_worked = True,
                sol_created_by = user t\<rparr>]\<rparr>)))"

text \<open>
  \<^verbatim>\<open>Ticket.save\<close>: reads the stored row (the ticket has a primary key), writes the ticket
  (\<^verbatim>\<open>updated_at\<close> is \<^verbatim>\<open>auto_now\<close>), and, when the ticket has just become resolved and has an
  agent response, syncs the knowledge base and records a solution.
\<close>

definition Ticket_save :: "env \<Rightarrow> ticket \<Rightarrow> db \<Rightarrow> unit res" where
  "Ticket_save e t =
     guarded e TicketSave (\<lambda>d.
       (case find_ticket d (ticket_id t) of
          None \<Rightarrow> (Inl DoesNotExist, d)
        | Some orig \<Rightarrow>
            (let was_resolved = (status orig = ''resolved'');
                 t' = t\<lparr>updated_at := now e\<rparr>;
                 d1 = d\<lparr>tickets := upsert ticket_id t' (tickets d)\<rparr>
             in if status t = ''resolved'' \<and> truthy (agent_response t) \<and> \<not> was_resolved
                then seq (sync_to_knowledge_base e t')
                       (\<lambda>_. case response_steps (agent_response t) of
                               Inl x \<Rightarrow> raising x
                             | Inr steps \<Rightarrow>
                                 (if truthy steps then solution_get_or_create e t' steps
                                  else returning ())) d1
                else (Inr (), d1))))"

text \<open>\<^verbatim>\<open>TicketResolution.was_successful\<close>; \<open>None\<close> is unknown.\<close>

definition was_successful :: "ticket_resolution \<Rightarrow> bool option" where
  "was_successful r =
     (if reopened r then Some False
      else if resolution_confirmed r = Some True then Some True
      else if (case satisfaction_score r of None \<Rightarrow> False | Some n \<Rightarrow> n \<noteq> 0 \<and> n \<ge> 4)
           then Some True
      else None)"

section \<open>The rollback manager (tickets/rollback.py)\<close>

text \<open>Truthiness of a snapshot column, and \<^verbatim>\<open>snapshot.get(key, default)\<close>.\<close>

definition snapshot_truthy :: "snapshot option \<Rightarrow> bool" where
  "snapshot_truthy s = (case s of None \<Rightarrow> False | Some kvs \<Rightarrow> kvs \<noteq> [])"

definition snapshot_get :: "snapshot option \<Rightarrow> string \<Rightarrow> string option \<Rightarrow> string option" where
  "snapshot_get s k dflt =
     (case s of None \<Rightarrow> dflt
      | Some kvs \<Rightarrow> (case map_of kvs k of None \<Rightarrow> dflt | Some v \<Rightarrow> v))"

text \<open>The last step of each reversal: mark the entry and save it.\<close>

definition mark_rolled_back :: "env \<Rightarrow> action_history \<Rightarrow> user_id \<Rightarrow> string \<Rightarrow> action_history" where
  "mark_rolled_back e h by reason =
     h\<lparr>rolled_back := True, rolled_back_at := Some (now e),
       rolled_back_by := Some by, rollback_reason := reason\<rparr>"

text \<open>
  Assigning the restored status and saving the ticket. A \<^verbatim>\<open>null\<close> status in the snapshot
  makes the save raise (the column is not nullable).
\<close>

definition save_with_status :: "env \<Rightarrow> ticket \<Rightarrow> string option \<Rightarrow> db \<Rightarrow> unit res" where
  "save_with_status e t s =
     (case s of
        None \<Rightarrow> guarded e TicketSave (raising IntegrityError)
      | Some v \<Rightarrow> Ticket_save e (t\<lparr>status := v\<rparr>))"

definition rollback_auto_resolve ::
  "env \<Rightarrow> ticket \<Rightarrow> action_history \<Rightarrow> user_id \<Rightarrow> string \<Rightarrow> db \<Rightarrow> bool \<times> db" where
  "rollback_auto_resolve e t h rollback_by reason =
     succeeds
       (seq (save_with_status e t
               (if snapshot_truthy (before_state h)
                then snapshot_get (before_state h) ''status'' (Some ''in-progress'')
                else Some ''in-progress''))
       (\<lambda>_. seq (interaction_create e (ticket_id t) rollback_by ''agent_response''
                   (Val (JStr (''Auto-resolution was rolled back.'' @ nl @ nl @ ''Reason: '' @ reason
                       @ nl @ nl @ ''Ticket reopened for manual review.''))))
       (\<lambda>_. history_save e (mark_rolled_back e h rollback_by reason))))"

definition rollback_assign_to_team ::
  "env \<Rightarrow> ticket \<Rightarrow> action_history \<Rightarrow> user_id \<Rightarrow> string \<Rightarrow> db \<Rightarrow> bool \<times> db" where
  "rollback_assign_to_team e t h rollback_by reason =
     succeeds
       (seq (if snapshot_truthy (before_state h)
             then (case snapshot_get (before_state h) ''assigned_to_id'' None of
                     None \<Rightarrow> returning None
                   | Some prev \<Rightarrow>
                       (if prev \<noteq> [] then seq (user_get e prev) (\<lambda>u. returning (Some u))
                        else returning None))
             else returning None)
       (\<lambda>a. seq (Ticket_save e (t\<lparr>assigned_to := a\<rparr>))
       (\<lambda>_. seq (interaction_create e (ticket_id t) rollback_by ''agent_response''
                   (Val (JStr (''Team assignment was rolled back.'' @ nl @ nl @ ''Reason: '' @ reason))))
       (\<lambda>_. history_save e (mark_rolled_back e h rollback_by reason)))))"

definition rollback_escalate ::
  "env \<Rightarrow> ticket \<Rightarrow> action_history \<Rightarrow> user_id \<Rightarrow> string \<Rightarrow> db \<Rightarrow> bool \<times> db" where
  "rollback_escalate e t h rollback_by reason =
     succeeds
       (seq (save_with_status e t
               (if snapshot_truthy (before_state h)
                then snapshot_get (before_state h) ''status'' (Some ''new'')
                else Some ''new''))
       (\<lambda>_. seq (interaction_create e (ticket_id t) rollback_by ''agent_response''
                   (Val (JStr (''Escalation was rolled back.'' @ nl @ nl @ ''Reason: '' @ reason))))
       (\<lambda>_. history_save e (mark_rolled_back e h rollback_by reason))))"

definition ROLLBACK_SUPPORTED :: "string list" where
  "ROLLBACK_SUPPORTED = [''AUTO_RESOLVE'', ''ASSIGN_TO_TEAM'', ''ESCALATE'', ''SCHEDULE_FOLLOWUP'']"

definition can_rollback :: "string \<Rightarrow> bool" where
  "can_rollback a = (a \<in> set ROLLBACK_SUPPORTED)"

text \<open>
  \<^verbatim>\<open>execute_rollback\<close>: \<^verbatim>\<open>action_history.ticket\<close> loads the ticket of the entry (outside any
  \<^verbatim>\<open>try\<close>), then the reversal is chosen by the action type.
\<close>

definition execute_rollback ::
  "env \<Rightarrow> action_history \<Rightarrow> user_id \<Rightarrow> string \<Rightarrow> db \<Rightarrow> bool res" where
  "execute_rollback e h rollback_by reason =
     seq (ticket_get e (ah_ticket h))
       (\<lambda>t d.
          if action_type h = ''AUTO_RESOLVE'' then
            (case rollback_auto_resolve e t h rollback_by reason d of (b, d') \<Rightarrow> (Inr b, d'))
          else if action_type h = ''ASSIGN_TO_TEAM'' then
            (case rollback_assign_to_team e t h rollback_by reason d of (b, d') \<Rightarrow> (Inr b, d'))
          else if action_type h = ''ESCALATE'' then
            (case rollback_escalate e t h rollback_by reason d of (b, d') \<Rightarrow> (Inr b, d'))
          else (Inr False, d))"

section \<open>The rollback endpoint (tickets/views.py)\<close>

text \<open>The authenticated user of a request, and a response: the body of a success, or the
  status code and the \<^verbatim>\<open>error\<close> text of a failure.\<close>

record request_user =
  uid :: user_id
  is_staff :: bool
  has_role :: bool

datatype response = Ok200 jdict | Err nat string

definition rollback_action ::
  "env \<Rightarrow> request_user \<Rightarrow> string option \<Rightarrow> nat \<Rightarrow> db \<Rightarrow> response \<times> db" where
  "rollback_action e u reason_field hid d =
     (if \<not> is_staff u \<and> \<not> has_role u then
        (Err 403 ''Only admins and managers can rollback actions'', d)
      else
        (case history_get e hid d of
           (Inl DoesNotExist, d') \<Rightarrow> (Err 404 ''Action history not found'', d')
         | (Inl x, d') \<Rightarrow> (Err 500 ''Rollback failed'', d')
         | (Inr h, d') \<Rightarrow>
             (if rolled_back h then
                (Err 400 ''This action was already rolled back'', d')
              else if \<not> can_rollback (action_type h) then
                (Err 400 (''Action type '' @ action_type h @ '' does not support rollback''), d')
              else
                (let reason = (case reason_field of None \<Rightarrow> ''Manual rollback by admin'' | Some r \<Rightarrow> r)
                 in (case execute_rollback e h (uid u) reason d' of
                       (Inr True, d'') \<Rightarrow>
                         (Ok200 [(''message'', JStr ''Action rolled back successfully''),
                                 (''ticket_id'', JNum (real (ah_ticket h))),
                                 (''action_type'', JStr (action_type h)),
                                 (''rollback_reason'', JStr reason)], d'')
                     | (Inr False, d'') \<Rightarrow> (Err 500 ''Rollback failed'', d'')
                     | (Inl x, d'') \<Rightarrow> (Err 500 ''Rollback failed'', d''))))))"

section \<open>The action executor (tickets/tasks.py)\<close>

text \<open>\<^verbatim>\<open>ticket.agent_response.get(k, default) if isinstance(ticket.agent_response, dict)
  else default\<close>.\<close>

definition response_field :: "json \<Rightarrow> string \<Rightarrow> json \<Rightarrow> json" where
  "response_field r k dflt = (case r of JDict kvs \<Rightarrow> dict_get kvs k dflt | _ \<Rightarrow> dflt)"

text \<open>The keyword arguments of \<^verbatim>\<open>ActionHistory.objects.create\<close> in the handlers, with the
  defaults of the model for the other columns. Key and execution time are set on creation.\<close>

definition history_row ::
  "nat \<Rightarrow> string \<Rightarrow> jdict \<Rightarrow> json \<Rightarrow> pystr \<Rightarrow> string \<Rightarrow> snapshot \<Rightarrow> snapshot \<Rightarrow> action_history" where
  "history_row tid ty params conf reasoning handler before after =
     \<lparr>ah_id = 0, ah_ticket = tid, action_type = ty, action_params = params,
      executed_at = 0, executed_by = ''autonomous_agent'',
      confidence_score = conf, agent_reasoning = reasoning,
      rollback_possible = True, rollback_steps = JDict [(''handler'', JStr handler)],
      rolled_back = False, rolled_back_at = None, rolled_back_by = None,
      rollback_reason = [], before_state = Some before, after_state = Some after\<rparr>"

definition handle_auto_resolve :: "env \<Rightarrow> ticket \<Rightarrow> jdict \<Rightarrow> db \<Rightarrow> bool res" where
  "handle_auto_resolve e t params =
     seq (assignee_user_id t)
       (\<lambda>a0.
     (let before = [(''status'', Some (status t)), (''assigned_to_id'', a0)];
          resolution_steps = dict_get params ''resolution_steps'' (JStr ''No steps provided'');
          confidence = response_field (agent_response t) ''confidence'' (JNum 0);
          reasoning = response_field (agent_response t) ''explanation'' (JStr []);
          t' = t\<lparr>status := ''resolved''\<rparr>
      in seq (Ticket_save e t')
        (\<lambda>_. seq (assignee_user_id t')
        (\<lambda>a1. let after = [(''status'', Some (status t')), (''assigned_to_id'', a1)]
          in seq (history_create e
                    (history_row (ticket_id t') ''AUTO_RESOLVE'' params confidence (Val reasoning)
                       ''rollback_auto_resolve'' before after))
        (\<lambda>_. seq (interaction_create e (ticket_id t') (user t') ''agent_response''
                    (Fmt (''Auto-resolved by AI Agent.'' @ nl @ nl @ ''Resolution:'' @ nl @ ''{}'')
                       [resolution_steps]))
        (\<lambda>_. seq (resolution_get_or_create e (ticket_id t') ''AUTO_RESOLVE'')
        (\<lambda>_. seq (notify e ''auto_resolution'' (user t') (ticket_id t') params)
        (\<lambda>_. seq (apply_async e
                    \<lparr>task_name = ''schedule_resolution_followup'', task_ticket = ticket_id t',
                     task_params = None, task_when = Countdown 86400\<rparr>)
        (\<lambda>_. returning True)))))))))"

definition handle_escalate :: "env \<Rightarrow> ticket \<Rightarrow> jdict \<Rightarrow> db \<Rightarrow> bool res" where
  "handle_escalate e t params =
     (let before = [(''status'', Some (status t))];
          t' = t\<lparr>status := ''escalated''\<rparr>
      in seq (Ticket_save e t')
        (\<lambda>_. let after = [(''status'', Some (status t'))];
                  confidence = response_field (agent_response t') ''confidence'' (JNum 0);
                  reasoning = dict_get params ''escalation_reason'' (JStr ''Requires human attention'')
          in seq (history_create e
                    (history_row (ticket_id t') ''ESCALATE'' params confidence (Val reasoning)
                       ''rollback_escalate'' before after))
        (\<lambda>_. seq (interaction_create e (ticket_id t') (user t') ''agent_response''
                    (Fmt ''Escalated: {}'' [reasoning]))
        (\<lambda>_. seq (notify e ''escalation'' (user t') (ticket_id t') params)
        (\<lambda>_. returning True)))))"

definition handle_request_clarification :: "env \<Rightarrow> ticket \<Rightarrow> jdict \<Rightarrow> db \<Rightarrow> bool res" where
  "handle_request_clarification e t params =
     (let t' = t\<lparr>status := ''pending_clarification''\<rparr>
      in seq (Ticket_save e t')
        (\<lambda>_. seq (interaction_create e (ticket_id t') (user t') ''agent_clarification_request''
                    (Fmt ''Requested clarification: {}''
                       [dict_get params ''reason'' (JStr ''Need more information'')]))
        (\<lambda>_. seq (notify e ''clarification_request'' (user t') (ticket_id t') params)
        (\<lambda>_. returning True))))"

definition handle_assign_to_team :: "env \<Rightarrow> ticket \<Rightarrow> jdict \<Rightarrow> db \<Rightarrow> bool res" where
  "handle_assign_to_team e t params =
     seq (assignee_user_id t)
       (\<lambda>a0.
     (let before = [(''assigned_to_id'', a0), (''status'', Some (status t))];
          assigned_team = dict_get params ''assigned_team'' (JStr ''IT Support'');
          t' = t\<lparr>status := ''assigned''\<rparr>
      in seq (Ticket_save e t')
        (\<lambda>_. seq (assignee_user_id t')
        (\<lambda>a1. let after = [(''assigned_to_id'', a1), (''status'', Some (status t'))];
                  confidence = response_field (agent_response t') ''confidence'' (JNum 0)
          in seq (history_create e
                    (history_row (ticket_id t') ''ASSIGN_TO_TEAM'' params confidence
                       (Fmt ''Assigned to {}'' [assigned_team]) ''rollback_assign_to_team'' before after))
        (\<lambda>_. seq (interaction_create e (ticket_id t') (user t') ''agent_response''
                    (Fmt ''Assigned to {}'' [assigned_team]))
        (\<lambda>_. returning True))))))"

definition handle_schedule_followup :: "env \<Rightarrow> ticket \<Rightarrow> jdict \<Rightarrow> db \<Rightarrow> bool res" where
  "handle_schedule_followup e t params =
     (let followup_time = dict_get params ''followup_time'' JNull
      in seq (if truthy followup_time
              then apply_async e
                     \<lparr>task_name = ''check_ticket_followup'', task_ticket = ticket_id t,
                      task_params = Some params, task_when = Eta followup_time\<rparr>
              else returning ())
        (\<lambda>_. seq (notify e ''solution_with_followup'' (user t) (ticket_id t) params)
        (\<lambda>_. returning True)))"

definition handle_create_kb_article :: "env \<Rightarrow> ticket \<Rightarrow> jdict \<Rightarrow> db \<Rightarrow> bool res" where
  "handle_create_kb_article e t params =
     seq (sync_to_knowledge_base e t) (\<lambda>_. returning True)"

text \<open>
  Modelled from the spec: the enumeration \<^verbatim>\<open>AgentAction\<close> of tickets/autonomous_agent.py,
  which is not among the sources. The spec names six action types; the value of each member
  is taken to be its name, the string the action history records.
\<close>

datatype AgentAction =
    AUTO_RESOLVE | ESCALATE | REQUEST_CLARIFICATION
  | ASSIGN_TO_TEAM | SCHEDULE_FOLLOWUP | CREATE_KB_ARTICLE

fun action_value :: "AgentAction \<Rightarrow> string" where
  "action_value AUTO_RESOLVE = ''AUTO_RESOLVE''"
| "action_value ESCALATE = ''ESCALATE''"
| "action_value REQUEST_CLARIFICATION = ''REQUEST_CLARIFICATION''"
| "action_value ASSIGN_TO_TEAM = ''ASSIGN_TO_TEAM''"
| "action_value SCHEDULE_FOLLOWUP = ''SCHEDULE_FOLLOWUP''"
| "action_value CREATE_KB_ARTICLE = ''CREATE_KB_ARTICLE''"

text \<open>
  \<^verbatim>\<open>execute_autonomous_action\<close>: load the ticket, run the handler of the action, report to
  monitoring (no effect on the store) and return the handler's result; any exception gives
  \<^verbatim>\<open>False\<close>.
\<close>

definition execute_autonomous_action ::
  "env \<Rightarrow> nat \<Rightarrow> string \<Rightarrow> jdict \<Rightarrow> db \<Rightarrow> bool \<times> db" where
  "execute_autonomous_action e tid action params d =
     (case seq (ticket_get e tid)
             (\<lambda>t. if action = action_value AUTO_RESOLVE then handle_auto_resolve e t params
                  else if action = action_value ESCALATE then handle_escalate e t params
                  else if action = action_value REQUEST_CLARIFICATION
                    then handle_request_clarification e t params
                  else if action = action_value ASSIGN_TO_TEAM then handle_assign_to_team e t params
                  else if action = action_value SCHEDULE_FOLLOWUP
                    then handle_schedule_followup e t params
                  else if action = action_value CREATE_KB_ARTICLE
                    then handle_create_kb_article e t params
                  else returning False) d of
        (Inl x, d') \<Rightarrow> (False, d')
      | (Inr success, d') \<Rightarrow> (success, d'))"

text \<open>\<^verbatim>\<open>check_ticket_followup\<close>: the scheduled re-check. It returns nothing; exceptions are
  logged and dropped.\<close>

definition followup_params :: jdict where
  "followup_params =
     [(''escalation_reason'', JStr ''Solution did not resolve issue within expected timeframe''),
      (''priority'', JStr ''high'')]"

definition check_ticket_followup :: "env \<Rightarrow> nat \<Rightarrow> jdict \<Rightarrow> db \<Rightarrow> db" where
  "check_ticket_followup e tid original_params d =
     snd (seq (ticket_get e tid)
            (\<lambda>t. if status t \<notin> set [''resolved'', ''closed'']
                 then seq (handle_escalate e t followup_params) (\<lambda>_. returning ())
                 else returning ()) d)"

section \<open>The feedback endpoint (tickets/views.py)\<close>

text \<open>
  \<^verbatim>\<open>submit_resolution_feedback\<close>. The three fields of the request body are typed: a missing
  or \<^verbatim>\<open>null\<close> confirmation or score is \<open>None\<close>, a missing feedback text is \<open>None\<close>.
\<close>

definition submit_resolution_feedback ::
  "env \<Rightarrow> nat \<Rightarrow> bool option \<Rightarrow> int option \<Rightarrow> string option \<Rightarrow> db \<Rightarrow> response \<times> db" where
  "submit_resolution_feedback e tid confirmed score feedback_text d =
     (case seq (ticket_get e tid)
             (\<lambda>t. seq (resolution_get_or_create e (ticket_id t) ''MANUAL'')
             (\<lambda>r0. let r1 = r0\<lparr>resolution_confirmed := confirmed,
                                satisfaction_score := score,
                                user_feedback_text := (case feedback_text of None \<Rightarrow> [] | Some s \<Rightarrow> s),
                                response_received_at := Some (now e)\<rparr>
                in if confirmed = Some False
                   then (let r2 = r1\<lparr>reopened := True, reopened_at := Some (now e),
                                     reopened_reason :=
                                       (case feedback_text of
                                          None \<Rightarrow> ''User reported issue not resolved''
                                        | Some s \<Rightarrow> s)\<rparr>
                         in seq (Ticket_save e (t\<lparr>status := ''escalated''\<rparr>))
                           (\<lambda>_. seq (resolution_save e r2) (\<lambda>_. returning r2)))
                   else seq (resolution_save e r1) (\<lambda>_. returning r1))) d of
        (Inl DoesNotExist, d') \<Rightarrow> (Err 404 ''Ticket not found'', d')
      | (Inl x, d') \<Rightarrow> (Err 500 ''Failed to submit feedback'', d')
      | (Inr r, d') \<Rightarrow>
          (Ok200 [(''message'', JStr ''Feedback received successfully''),
                  (''ticket_id'', JNum (real tid)),
                  (''resolution_confirmed'',
                     (case resolution_confirmed r of None \<Rightarrow> JNull | Some b \<Rightarrow> JBool b)),
                  (''ticket_reopened'', JBool (reopened r))], d'))"

section \<open>The decision policy\<close>







section \<open>Notions used in the statements\<close>

text \<open>The assignee that the reversal of a team assignment restores: the value of
  \<^verbatim>\<open>assigned_to_id\<close> in the snapshot when it is present and not empty, else none.\<close>

definition previous_assignee :: "action_history \<Rightarrow> user_id option" where
  "previous_assignee h =
     (case snapshot_get (before_state h) ''assigned_to_id'' None of
        None \<Rightarrow> None
      | Some p \<Rightarrow> if p = [] then None else Some p)"

text \<open>The ticket that a reversal writes: the loaded ticket with the restored assignee, or
  with the restored status (none when the snapshot holds \<^verbatim>\<open>null\<close> for the status), and
  the time of the save.\<close>

definition restored_ticket :: "env \<Rightarrow> action_history \<Rightarrow> ticket \<Rightarrow> ticket option" where
  "restored_ticket e h t =
     (if action_type h = ''ASSIGN_TO_TEAM''
      then Some (t\<lparr>assigned_to := previous_assignee h, updated_at := now e\<rparr>)
      else (case snapshot_get (before_state h) ''status''
                   (Some (if action_type h = ''AUTO_RESOLVE'' then ''in-progress'' else ''new'')) of
              None \<Rightarrow> None
            | Some s \<Rightarrow> Some (t\<lparr>status := s, updated_at := now e\<rparr>)))"

section \<open>A sample store\<close>

text \<open>
  One user's resolved ticket with the history entry of its auto-resolution, as the test suite
  of the repository sets them up (tickets/test\_new\_features.py), and an administrator.
\<close>

definition demo_env :: env where
  "demo_env = \<lparr>faults = no_faults, now = 100\<rparr>"

definition demo_ticket :: ticket where
  "demo_ticket =
     \<lparr>ticket_id = 1, user = ''testuser'', issue_type = ''software (high)'',
      status = ''resolved'', description = Some ''App crash'', screenshot = None,
      assigned_to = None, category = ''software'', tags = [], created_at = 10,
      updated_at = 20, agent_response = JNull, agent_processed = False\<rparr>"

definition demo_entry :: action_history where
  "demo_entry =
     \<lparr>ah_id = 7, ah_ticket = 1, action_type = ''AUTO_RESOLVE'', action_params = [],
      executed_at = 20, executed_by = ''autonomous_agent'',
      confidence_score = JNum (3 / 4), agent_reasoning = Val (JStr []),
      rollback_possible = False, rollback_steps = JNull,
      rolled_back = False, rolled_back_at = None, rolled_back_by = None,
      rollback_reason = [],
      before_state = Some [(''status'', Some ''in_progress'')],
      after_state = Some [(''status'', Some ''resolved'')]\<rparr>"

definition demo_db :: "ticket \<Rightarrow> action_history list \<Rightarrow> db" where
  "demo_db t hs =
     \<lparr>tickets = [t], users = [''testuser'', ''admin''], histories = hs,
      interactions = [], resolutions = [], kb_articles = [], solutions = [],
      slack_token = None, outbox = [], scheduled = []\<rparr>"

definition demo_admin :: request_user where
  "demo_admin = \<lparr>uid = ''admin'', is_staff = True, has_role = False\<rparr>"

section \<open>Facts about the tables\<close>

lemma find_map_replace_other:
  "k \<noteq> key r \<Longrightarrow>
   find (\<lambda>x. key x = k) (map (\<lambda>x. if key x = key r then r else x) rows)
     = find (\<lambda>x. key x = k) rows"
  by (induction rows) auto

lemma find_append_other:
  "k \<noteq> key r \<Longrightarrow> find (\<lambda>x. key x = k) (rows @ [r]) = find (\<lambda>x. key x = k) rows"
  by (induction rows) auto

lemma find_map_replace_same:
  "key r \<in> key ` set rows \<Longrightarrow>
   find (\<lambda>x. key x = key r) (map (\<lambda>x. if key x = key r then r else x) rows) = Some r"
  by (induction rows) auto

lemma find_append_same:
  "key r \<notin> key ` set rows \<Longrightarrow> find (\<lambda>x. key x = key r) (rows @ [r]) = Some r"
  by (induction rows) auto

lemma find_upsert_same: "find (\<lambda>x. key x = key r) (upsert key r rows) = Some r"
  by (simp add: upsert_def find_map_replace_same find_append_same)

lemma find_upsert_other:
  "k \<noteq> key r \<Longrightarrow> find (\<lambda>x. key x = k) (upsert key r rows) = find (\<lambda>x. key x = k) rows"
  by (simp add: upsert_def find_map_replace_other find_append_other)

lemma find_key: "find (\<lambda>x. key x = k) rows = Some r \<Longrightarrow> key r = k"
  by (induction rows) (auto split: if_splits)

text \<open>The definitions that a run on a concrete store unfolds.\<close>

lemmas run_defs = seq_def succeeds_def guarded_def returning_def raising_def
  ticket_get_def history_get_def user_get_def assignee_user_id_def history_create_def
  history_save_def
  interaction_create_def resolution_get_or_create_def resolution_save_def notify_def
  apply_async_def find_ticket_def find_history_def find_resolution_def upsert_def fresh_id_def
  new_resolution_def sync_to_knowledge_base_def response_steps_def solution_get_or_create_def
  Ticket_save_def snapshot_truthy_def snapshot_get_def mark_rolled_back_def save_with_status_def
  rollback_auto_resolve_def rollback_assign_to_team_def rollback_escalate_def
  execute_rollback_def can_rollback_def ROLLBACK_SUPPORTED_def rollback_action_def
  response_field_def history_row_def handle_auto_resolve_def handle_escalate_def
  handle_request_clarification_def handle_assign_to_team_def handle_schedule_followup_def
  handle_create_kb_article_def execute_autonomous_action_def followup_params_def
  check_ticket_followup_def submit_resolution_feedback_def dict_get_def py_or_def nl_def

lemmas demo_defs = demo_env_def demo_ticket_def demo_entry_def demo_db_def demo_admin_def
  no_faults_def

section \<open>Rollback eligibility\<close>

text \<open>
  Claim C4, as amended. \<^verbatim>\<open>can_rollback\<close> is true exactly for AUTO\_RESOLVE, ASSIGN\_TO\_TEAM,
  ESCALATE and SCHEDULE\_FOLLOWUP. For an entry whose action type is REQUEST\_CLARIFICATION or
  CREATE\_KB\_ARTICLE, \<^verbatim>\<open>execute_rollback\<close> never succeeds and leaves the store as it was, but
  it signals no error of its own: it returns the plain \<^verbatim>\<open>False\<close> once the ticket of the entry is
  loaded (and raises the error of the load, without any write, when the ticket cannot be
  loaded). The rejection that names the cause is made by the endpoint \<^verbatim>\<open>rollback_action\<close>, which
  answers such an entry, not yet rolled back, with status 400 and the text that the action type
  does not support rollback, before \<^verbatim>\<open>execute_rollback\<close> is called.
\<close>

theorem rollback_eligibility:
  "(can_rollback a \<longleftrightarrow>
      a \<in> {''AUTO_RESOLVE'', ''ASSIGN_TO_TEAM'', ''ESCALATE'', ''SCHEDULE_FOLLOWUP''})
   \<and> (action_type h \<in> {''REQUEST_CLARIFICATION'', ''CREATE_KB_ARTICLE''} \<longrightarrow>
        \<not> can_rollback (action_type h)
      \<and> execute_rollback e h by reason d =
          (if faults e TicketGet then (Inl DatabaseError, d)
           else case find_ticket d (ah_ticket h) of
                  None \<Rightarrow> (Inl DoesNotExist, d)
                | Some t \<Rightarrow> (Inr False, d))
      \<and> (find_history d hid = Some h \<longrightarrow> \<not> faults e HistoryGet \<longrightarrow>
           (is_staff u \<or> has_role u) \<longrightarrow> \<not> rolled_back h \<longrightarrow>
           rollback_action e u rf hid d =
             (Err 400 (''Action type '' @ action_type h @ '' does not support rollback''), d)))"
proof -
  have elig: "can_rollback a \<longleftrightarrow>
      a \<in> {''AUTO_RESOLVE'', ''ASSIGN_TO_TEAM'', ''ESCALATE'', ''SCHEDULE_FOLLOWUP''}" for a
    by (auto simp: can_rollback_def ROLLBACK_SUPPORTED_def)
  have exec: "execute_rollback e h by reason d =
          (if faults e TicketGet then (Inl DatabaseError, d)
           else case find_ticket d (ah_ticket h) of
                  None \<Rightarrow> (Inl DoesNotExist, d)
                | Some t \<Rightarrow> (Inr False, d))"
    if "action_type h \<in> {''REQUEST_CLARIFICATION'', ''CREATE_KB_ARTICLE''}"
    using that
    by (auto simp: execute_rollback_def seq_def ticket_get_def guarded_def split: option.splits)
  have view: "rollback_action e u rf hid d =
             (Err 400 (''Action type '' @ action_type h @ '' does not support rollback''), d)"
    if "action_type h \<in> {''REQUEST_CLARIFICATION'', ''CREATE_KB_ARTICLE''}"
       "find_history d hid = Some h" "\<not> faults e HistoryGet" "is_staff u \<or> has_role u"
       "\<not> rolled_back h"
    using that elig [of "action_type h"]
    by (auto simp: rollback_action_def history_get_def guarded_def)
  show ?thesis
    using elig exec view by auto
qed

theorem rollback_eligibility_witness:
  "execute_rollback demo_env (demo_entry\<lparr>action_type := ''CREATE_KB_ARTICLE''\<rparr>) ''admin'' ''wrong''
       (demo_db demo_ticket [demo_entry\<lparr>action_type := ''CREATE_KB_ARTICLE''\<rparr>])
     = (Inr False, demo_db demo_ticket [demo_entry\<lparr>action_type := ''CREATE_KB_ARTICLE''\<rparr>])
   \<and> rollback_action demo_env demo_admin None 7
       (demo_db demo_ticket [demo_entry\<lparr>action_type := ''CREATE_KB_ARTICLE''\<rparr>])
     = (Err 400 ''Action type CREATE_KB_ARTICLE does not support rollback'',
        demo_db demo_ticket [demo_entry\<lparr>action_type := ''CREATE_KB_ARTICLE''\<rparr>])"
  using rollback_eligibility [of "''ESCALATE''" "demo_entry\<lparr>action_type := ''CREATE_KB_ARTICLE''\<rparr>"
      demo_env "''admin''" "''wrong''"
      "demo_db demo_ticket [demo_entry\<lparr>action_type := ''CREATE_KB_ARTICLE''\<rparr>]" 7 demo_admin None]
  by (simp add: demo_defs find_history_def find_ticket_def)

text \<open>
  The claim as stated has \<^verbatim>\<open>execute_rollback\<close> fail with an invalid-action error. It returns
  \<^verbatim>\<open>False\<close> and raises nothing, and that result does not tell the ineligible entry from an
  eligible one: for a SCHEDULE\_FOLLOWUP entry, which \<^verbatim>\<open>can_rollback\<close> accepts, the result and
  the store are the same.
\<close>

theorem execute_rollback_no_invalid_action_error_counterexample:
  "execute_rollback demo_env (demo_entry\<lparr>action_type := ''CREATE_KB_ARTICLE''\<rparr>) ''admin'' ''wrong''
       (demo_db demo_ticket [demo_entry\<lparr>action_type := ''CREATE_KB_ARTICLE''\<rparr>])
     = (Inr False, demo_db demo_ticket [demo_entry\<lparr>action_type := ''CREATE_KB_ARTICLE''\<rparr>])
   \<and> execute_rollback demo_env (demo_entry\<lparr>action_type := ''REQUEST_CLARIFICATION''\<rparr>) ''admin''
       ''wrong'' (demo_db demo_ticket [demo_entry\<lparr>action_type := ''REQUEST_CLARIFICATION''\<rparr>])
     = (Inr False, demo_db demo_ticket [demo_entry\<lparr>action_type := ''REQUEST_CLARIFICATION''\<rparr>])
   \<and> can_rollback ''SCHEDULE_FOLLOWUP''
   \<and> execute_rollback demo_env (demo_entry\<lparr>action_type := ''SCHEDULE_FOLLOWUP''\<rparr>) ''admin'' ''wrong''
       (demo_db demo_ticket [demo_entry\<lparr>action_type := ''SCHEDULE_FOLLOWUP''\<rparr>])
     = (Inr False, demo_db demo_ticket [demo_entry\<lparr>action_type := ''SCHEDULE_FOLLOWUP''\<rparr>])"
  by (simp add: run_defs demo_defs Let_def)

section \<open>Facts about \<^verbatim>\<open>Ticket.save\<close>\<close>

lemma restored_eq:
  "(if snapshot_truthy b then snapshot_get b k dflt else dflt) = snapshot_get b k dflt"
  by (cases b) (auto simp: snapshot_truthy_def snapshot_get_def)

lemma sync_kb_frame:
  "sync_to_knowledge_base e t d = (r, d') \<Longrightarrow>
     tickets d' = tickets d \<and> histories d' = histories d \<and> interactions d' = interactions d
   \<and> resolutions d' = resolutions d \<and> users d' = users d \<and> slack_token d' = slack_token d
   \<and> outbox d' = outbox d \<and> scheduled d' = scheduled d \<and> solutions d' = solutions d"
  by (auto simp: sync_to_knowledge_base_def guarded_def Let_def split: if_splits option.splits)

lemma sync_kb_ok:
  "\<not> faults e KBWrite \<Longrightarrow> fst (sync_to_knowledge_base e t d) = Inr ()"
  by (auto simp: sync_to_knowledge_base_def guarded_def Let_def split: if_splits option.splits)

lemma solution_frame:
  "solution_get_or_create e t s d = (r, d') \<Longrightarrow>
     tickets d' = tickets d \<and> histories d' = histories d \<and> interactions d' = interactions d
   \<and> resolutions d' = resolutions d \<and> users d' = users d \<and> slack_token d' = slack_token d
   \<and> outbox d' = outbox d \<and> scheduled d' = scheduled d \<and> kb_articles d' = kb_articles d"
  by (auto simp: solution_get_or_create_def guarded_def split: if_splits option.splits)

lemma solution_ok:
  "\<not> faults e SolutionWrite \<Longrightarrow> fst (solution_get_or_create e t s d) = Inr ()"
  by (auto simp: solution_get_or_create_def guarded_def split: if_splits option.splits)

text \<open>A save leaves every other table as it was, and writes the ticket or nothing.\<close>

lemma Ticket_save_frame:
  assumes "Ticket_save e t d = (r, d')"
  shows "histories d' = histories d \<and> interactions d' = interactions d
       \<and> resolutions d' = resolutions d \<and> users d' = users d \<and> slack_token d' = slack_token d
       \<and> outbox d' = outbox d \<and> scheduled d' = scheduled d
       \<and> (tickets d' = tickets d
          \<or> tickets d' = upsert ticket_id (t\<lparr>updated_at := now e\<rparr>) (tickets d))
       \<and> (r = Inr () \<longrightarrow> \<not> faults e TicketSave
            \<and> tickets d' = upsert ticket_id (t\<lparr>updated_at := now e\<rparr>) (tickets d))"
proof (cases "faults e TicketSave")
  case True
  with assms show ?thesis by (auto simp: Ticket_save_def guarded_def)
next
  case nf: False
  show ?thesis
  proof (cases "find_ticket d (ticket_id t)")
    case None
    with assms nf show ?thesis by (auto simp: Ticket_save_def guarded_def)
  next
    case (Some orig)
    let ?d1 = "d\<lparr>tickets := upsert ticket_id (t\<lparr>updated_at := now e\<rparr>) (tickets d)\<rparr>"
    show ?thesis
    proof (cases "status t = ''resolved'' \<and> truthy (agent_response t) \<and> status orig \<noteq> ''resolved''")
      case False
      with assms nf Some show ?thesis
        by (auto simp: Ticket_save_def guarded_def Let_def)
    next
      case True
      obtain r1 d2 where s1: "sync_to_knowledge_base e (t\<lparr>updated_at := now e\<rparr>) ?d1 = (r1, d2)"
        by (cases "sync_to_knowledge_base e (t\<lparr>updated_at := now e\<rparr>) ?d1") auto
      note f1 = sync_kb_frame [OF s1]
      have run: "Ticket_save e t d =
        (case r1 of Inl x \<Rightarrow> (Inl x, d2)
         | Inr u \<Rightarrow> (case response_steps (agent_response t) of
               Inl x \<Rightarrow> (Inl x, d2)
             | Inr steps \<Rightarrow> if truthy steps
                 then solution_get_or_create e (t\<lparr>updated_at := now e\<rparr>) steps d2
                 else (Inr (), d2)))"
        using nf Some True s1
        by (auto simp: Ticket_save_def guarded_def Let_def seq_def raising_def returning_def
            split: sum.splits)
      show ?thesis
      proof (cases r1)
        case (Inl x)
        with run assms f1 show ?thesis by auto
      next
        case (Inr u)
        show ?thesis
        proof (cases "response_steps (agent_response t)")
          case (Inl x)
          with run assms f1 Inr show ?thesis by auto
        next
          case st: (Inr steps)
          show ?thesis
          proof (cases "truthy steps")
            case False
            with run assms f1 Inr st nf show ?thesis by auto
          next
            case True
            with run assms Inr st
            have "solution_get_or_create e (t\<lparr>updated_at := now e\<rparr>) steps d2 = (r, d')" by simp
            from solution_frame [OF this] f1 nf show ?thesis by auto
          qed
        qed
      qed
    qed
  qed
qed

lemma Ticket_save_ok:
  assumes "\<not> faults e TicketSave" "\<not> faults e KBWrite" "\<not> faults e SolutionWrite"
      and "find_ticket d (ticket_id t) = Some orig"
      and "response_steps (agent_response t) \<noteq> Inl TypeError"
  shows "fst (Ticket_save e t d) = Inr ()"
proof -
  let ?t = "t\<lparr>updated_at := now e\<rparr>"
  let ?d1 = "d\<lparr>tickets := upsert ticket_id ?t (tickets d)\<rparr>"
  have k: "fst (sync_to_knowledge_base e ?t ?d1) = Inr ()"
    using assms(2) by (rule sync_kb_ok)
  obtain d2 where s1: "sync_to_knowledge_base e ?t ?d1 = (Inr (), d2)"
    using k by (cases "sync_to_knowledge_base e ?t ?d1") auto
  have ne: "response_steps (agent_response t) = Inl x \<Longrightarrow> False" for x
    using assms(5) by (auto simp: response_steps_def Let_def split: json.splits if_splits option.splits)
  show ?thesis
    using assms(1,4) s1 ne solution_ok [OF assms(3)]
    by (auto simp: Ticket_save_def guarded_def Let_def seq_def raising_def returning_def
        split: sum.splits)
qed

lemma Ticket_save_plain:
  assumes "status t \<noteq> ''resolved''"
  shows "Ticket_save e t d =
     (if faults e TicketSave then (Inl DatabaseError, d)
      else case find_ticket d (ticket_id t) of
             None \<Rightarrow> (Inl DoesNotExist, d)
           | Some orig \<Rightarrow> (Inr (), d\<lparr>tickets := upsert ticket_id (t\<lparr>updated_at := now e\<rparr>) (tickets d)\<rparr>))"
  using assms by (auto simp: Ticket_save_def guarded_def Let_def split: option.splits)

lemma Ticket_save_resolved_again:
  assumes "find_ticket d (ticket_id t) = Some orig" "status orig = ''resolved''" "\<not> faults e TicketSave"
  shows "Ticket_save e t d =
     (Inr (), d\<lparr>tickets := upsert ticket_id (t\<lparr>updated_at := now e\<rparr>) (tickets d)\<rparr>)"
  using assms by (auto simp: Ticket_save_def guarded_def Let_def split: option.splits)

section \<open>Facts about the reversals\<close>

text \<open>The common end of the three reversals: the interaction record, then the mark on the
  entry.\<close>

lemma reversal_tail:
  assumes "m d = (r, d1)"
  shows "succeeds (seq m (\<lambda>_. seq (interaction_create e tid u ty c) (\<lambda>_. history_save e h'))) d =
    (case r of
       Inl x \<Rightarrow> (False, d1)
     | Inr y \<Rightarrow>
         if faults e InteractionCreate then (False, d1)
         else if faults e HistorySave then
           (False, d1\<lparr>interactions := interactions d1 @
              [\<lparr>ti_ticket = tid, ti_user = u, interaction_type = ty, content = c,
                ti_created_at = now e\<rparr>]\<rparr>)
         else
           (True, d1\<lparr>interactions := interactions d1 @
              [\<lparr>ti_ticket = tid, ti_user = u, interaction_type = ty, content = c,
                ti_created_at = now e\<rparr>],
              histories := upsert ah_id h' (histories d1)\<rparr>))"
  using assms
  by (auto simp: succeeds_def seq_def interaction_create_def history_save_def guarded_def
      split: sum.splits)

lemma save_with_status_frame:
  assumes "save_with_status e t so d = (r, d1)"
  shows "histories d1 = histories d \<and> interactions d1 = interactions d
       \<and> resolutions d1 = resolutions d \<and> users d1 = users d
       \<and> (tickets d1 = tickets d
          \<or> (\<exists>s. so = Some s
               \<and> tickets d1 = upsert ticket_id (t\<lparr>status := s, updated_at := now e\<rparr>) (tickets d)))
       \<and> (r = Inr () \<longrightarrow> \<not> faults e TicketSave
            \<and> (\<exists>s. so = Some s
               \<and> tickets d1 = upsert ticket_id (t\<lparr>status := s, updated_at := now e\<rparr>) (tickets d)))"
proof (cases so)
  case None
  with assms show ?thesis
    by (auto simp: save_with_status_def guarded_def raising_def split: if_splits)
next
  case (Some s)
  with assms have "Ticket_save e (t\<lparr>status := s\<rparr>) d = (r, d1)"
    by (simp add: save_with_status_def)
  from Ticket_save_frame [OF this] Some show ?thesis by auto
qed

lemma save_with_status_ok:
  assumes "\<not> faults e TicketSave" "\<not> faults e KBWrite" "\<not> faults e SolutionWrite"
      and "find_ticket d (ticket_id t) = Some orig"
      and "response_steps (agent_response t) \<noteq> Inl TypeError"
  shows "fst (save_with_status e t (Some s) d) = Inr ()"
  using Ticket_save_ok [of e d "t\<lparr>status := s\<rparr>" orig] assms
  by (simp add: save_with_status_def)

text \<open>What a status reversal (of an auto-resolution or an escalation) leaves.\<close>

lemma status_reversal:
  assumes run: "succeeds (seq (save_with_status e t so)
             (\<lambda>_. seq (interaction_create e tid u ty c) (\<lambda>_. history_save e h'))) d = (b, d')"
  shows "histories d' = (if b then upsert ah_id h' (histories d) else histories d)
       \<and> users d' = users d \<and> resolutions d' = resolutions d
       \<and> (tickets d' = tickets d
          \<or> (\<exists>s. so = Some s
               \<and> tickets d' = upsert ticket_id (t\<lparr>status := s, updated_at := now e\<rparr>) (tickets d)))
       \<and> (b \<longrightarrow> \<not> faults e TicketSave \<and> \<not> faults e InteractionCreate \<and> \<not> faults e HistorySave
            \<and> (\<exists>s. so = Some s
               \<and> tickets d' = upsert ticket_id (t\<lparr>status := s, updated_at := now e\<rparr>) (tickets d))
            \<and> interactions d' = interactions d @
                [\<lparr>ti_ticket = tid, ti_user = u, interaction_type = ty, content = c,
                  ti_created_at = now e\<rparr>])"
proof -
  obtain r d1 where m: "save_with_status e t so d = (r, d1)"
    by (cases "save_with_status e t so d") auto
  note f = save_with_status_frame [OF m]
  from run reversal_tail [of "save_with_status e t so" d r d1 e tid u ty c h', OF m] f show ?thesis
    by (auto split: sum.splits if_splits)
qed

lemma status_reversal_ok:
  assumes "\<not> faults e TicketSave" "\<not> faults e KBWrite" "\<not> faults e SolutionWrite"
      and "\<not> faults e InteractionCreate" "\<not> faults e HistorySave"
      and "find_ticket d (ticket_id t) = Some orig"
      and "response_steps (agent_response t) \<noteq> Inl TypeError"
  shows "fst (succeeds (seq (save_with_status e t (Some s))
             (\<lambda>_. seq (interaction_create e tid u ty c) (\<lambda>_. history_save e h'))) d)"
proof -
  obtain r d1 where m: "save_with_status e t (Some s) d = (r, d1)"
    by (cases "save_with_status e t (Some s) d") auto
  with save_with_status_ok [OF assms(1,2,3,6,7), of s] have "r = Inr ()" by simp
  with reversal_tail [of "save_with_status e t (Some s)" d r d1 e tid u ty c h', OF m] assms(4,5)
  show ?thesis by simp
qed

lemma assignee_lookup:
  "(if snapshot_truthy (before_state h)
    then (case snapshot_get (before_state h) ''assigned_to_id'' None of
            None \<Rightarrow> returning None
          | Some prev \<Rightarrow>
              (if prev \<noteq> [] then seq (user_get e prev) (\<lambda>u. returning (Some u))
               else returning None))
    else returning None) d =
   (case previous_assignee h of
      None \<Rightarrow> (Inr None, d)
    | Some p \<Rightarrow> (Inl FieldError, d))"
  by (cases "before_state h")
     (auto simp: previous_assignee_def snapshot_truthy_def snapshot_get_def returning_def seq_def
        user_get_def raising_def split: option.splits)

lemma assign_reversal:
  assumes run: "rollback_assign_to_team e t h by reason d = (b, d')"
  shows "histories d' = (if b then upsert ah_id (mark_rolled_back e h by reason) (histories d)
                         else histories d)
       \<and> users d' = users d \<and> resolutions d' = resolutions d
       \<and> (tickets d' = tickets d
          \<or> tickets d' = upsert ticket_id
               (t\<lparr>assigned_to := previous_assignee h, updated_at := now e\<rparr>) (tickets d))
       \<and> (b \<longrightarrow> \<not> faults e TicketSave \<and> \<not> faults e InteractionCreate \<and> \<not> faults e HistorySave
            \<and> tickets d' = upsert ticket_id
               (t\<lparr>assigned_to := previous_assignee h, updated_at := now e\<rparr>) (tickets d))"
proof -
  let ?look = "(if snapshot_truthy (before_state h)
    then (case snapshot_get (before_state h) ''assigned_to_id'' None of
            None \<Rightarrow> returning None
          | Some prev \<Rightarrow>
              (if prev \<noteq> [] then seq (user_get e prev) (\<lambda>u. returning (Some u))
               else returning None))
    else returning None)"
  let ?m = "seq ?look (\<lambda>a. Ticket_save e (t\<lparr>assigned_to := a\<rparr>))"
  have shape: "rollback_assign_to_team e t h by reason d =
     succeeds (seq ?m (\<lambda>_. seq (interaction_create e (ticket_id t) by ''agent_response''
                   (Val (JStr (''Team assignment was rolled back.'' @ nl @ nl @ ''Reason: '' @ reason))))
       (\<lambda>_. history_save e (mark_rolled_back e h by reason)))) d"
    by (simp add: rollback_assign_to_team_def succeeds_def seq_def split: prod.splits sum.splits)
  obtain r d1 where m: "?m d = (r, d1)" by (cases "?m d") auto
  have fr: "histories d1 = histories d \<and> interactions d1 = interactions d
       \<and> resolutions d1 = resolutions d \<and> users d1 = users d
       \<and> (tickets d1 = tickets d
          \<or> tickets d1 = upsert ticket_id
               (t\<lparr>assigned_to := previous_assignee h, updated_at := now e\<rparr>) (tickets d))
       \<and> ((\<exists>y. r = Inr y) \<longrightarrow> \<not> faults e TicketSave
            \<and> tickets d1 = upsert ticket_id
               (t\<lparr>assigned_to := previous_assignee h, updated_at := now e\<rparr>) (tickets d))"
  proof (cases "?look d")
    case (Pair r0 d0)
    with assignee_lookup [of h e d] have d0: "d0 = d"
      by (auto split: option.splits if_splits)
    show ?thesis
    proof (cases r0)
      case (Inl x)
      with Pair d0 m show ?thesis by (auto simp: seq_def)
    next
      case (Inr a)
      with Pair assignee_lookup [of h e d] have a: "a = previous_assignee h"
        by (auto split: option.splits if_splits)
      from Pair Inr d0 m have "Ticket_save e (t\<lparr>assigned_to := a\<rparr>) d = (r, d1)"
        by (auto simp: seq_def)
      from Ticket_save_frame [OF this] a show ?thesis by auto
    qed
  qed
  from run shape reversal_tail [of ?m d r d1, OF m] fr show ?thesis
    by (auto split: sum.splits if_splits)
qed

lemma assign_reversal_ok:
  assumes "\<forall>a. \<not> faults e a"
      and "find_ticket d (ticket_id t) = Some t"
      and "previous_assignee h = None"
  shows "fst (rollback_assign_to_team e t h by reason d)"
proof -
  let ?look = "(if snapshot_truthy (before_state h)
    then (case snapshot_get (before_state h) ''assigned_to_id'' None of
            None \<Rightarrow> returning None
          | Some prev \<Rightarrow>
              (if prev \<noteq> [] then seq (user_get e prev) (\<lambda>u. returning (Some u))
               else returning None))
    else returning None)"
  let ?m = "seq ?look (\<lambda>a. Ticket_save e (t\<lparr>assigned_to := a\<rparr>))"
  have shape: "rollback_assign_to_team e t h by reason d =
     succeeds (seq ?m (\<lambda>_. seq (interaction_create e (ticket_id t) by ''agent_response''
                   (Val (JStr (''Team assignment was rolled back.'' @ nl @ nl @ ''Reason: '' @ reason))))
       (\<lambda>_. history_save e (mark_rolled_back e h by reason)))) d"
    by (simp add: rollback_assign_to_team_def succeeds_def seq_def split: prod.splits sum.splits)
  have look: "?look d = (Inr (previous_assignee h), d)"
    using assignee_lookup [of h e d] assms(3) by simp
  have "fst (Ticket_save e (t\<lparr>assigned_to := previous_assignee h\<rparr>) d) = Inr ()"
    using assms(1,2)
    by (auto simp: Ticket_save_def guarded_def Let_def split: option.splits)
  then obtain d1 where "Ticket_save e (t\<lparr>assigned_to := previous_assignee h\<rparr>) d = (Inr (), d1)"
    by (cases "Ticket_save e (t\<lparr>assigned_to := previous_assignee h\<rparr>) d") auto
  with look have m: "?m d = (Inr (), d1)" by (simp add: seq_def)
  from shape reversal_tail [of ?m d "Inr ()" d1, OF m] assms(1) show ?thesis by simp
qed

section \<open>Facts about \<^verbatim>\<open>execute_rollback\<close>\<close>

lemma find_ticket_key: "find_ticket d tid = Some t \<Longrightarrow> ticket_id t = tid"
  unfolding find_ticket_def by (rule find_key)

lemma find_history_key: "find_history d hid = Some h \<Longrightarrow> ah_id h = hid"
  unfolding find_history_def by (rule find_key)

lemma execute_rollback_loaded:
  assumes "find_ticket d (ah_ticket h) = Some t" "\<not> faults e TicketGet"
  shows "execute_rollback e h actor reason d =
     (if action_type h = ''AUTO_RESOLVE'' then
        (Inr (fst (rollback_auto_resolve e t h actor reason d)),
         snd (rollback_auto_resolve e t h actor reason d))
      else if action_type h = ''ASSIGN_TO_TEAM'' then
        (Inr (fst (rollback_assign_to_team e t h actor reason d)),
         snd (rollback_assign_to_team e t h actor reason d))
      else if action_type h = ''ESCALATE'' then
        (Inr (fst (rollback_escalate e t h actor reason d)),
         snd (rollback_escalate e t h actor reason d))
      else (Inr False, d))"
  using assms
  by (simp add: execute_rollback_def seq_def ticket_get_def guarded_def split: prod.splits)

lemma execute_rollback_not_loaded:
  assumes "faults e TicketGet \<or> find_ticket d (ah_ticket h) = None"
  shows "\<exists>x. execute_rollback e h actor reason d = (Inl x, d)"
  using assms
  by (auto simp: execute_rollback_def seq_def ticket_get_def guarded_def split: prod.splits)

lemma execute_rollback_cases:
  assumes ty: "action_type h \<in> {''AUTO_RESOLVE'', ''ASSIGN_TO_TEAM'', ''ESCALATE''}"
      and t: "find_ticket d (ah_ticket h) = Some t"
      and run: "execute_rollback e h actor reason d = (r, d')"
  shows "histories d' = (if r = Inr True then upsert ah_id (mark_rolled_back e h actor reason) (histories d)
                         else histories d)
       \<and> users d' = users d \<and> resolutions d' = resolutions d
       \<and> (tickets d' = tickets d
          \<or> (\<exists>t'. restored_ticket e h t = Some t' \<and> tickets d' = upsert ticket_id t' (tickets d)))
       \<and> (r = Inr True \<longrightarrow>
             \<not> faults e TicketSave \<and> \<not> faults e InteractionCreate \<and> \<not> faults e HistorySave
           \<and> (\<exists>t'. restored_ticket e h t = Some t' \<and> tickets d' = upsert ticket_id t' (tickets d)))
       \<and> (\<not> faults e TicketGet \<longrightarrow> r = Inr True \<or> r = Inr False)"
proof (cases "faults e TicketGet")
  case True
  with execute_rollback_not_loaded [of e d h actor reason] run show ?thesis by auto
next
  case nf: False
  note ex = execute_rollback_loaded [OF t nf, of actor reason]
  consider (ar) "action_type h = ''AUTO_RESOLVE''" | (at) "action_type h = ''ASSIGN_TO_TEAM''"
    | (es) "action_type h = ''ESCALATE''" using ty by auto
  then show ?thesis
  proof cases
    case ar
    obtain b d1 where rb: "rollback_auto_resolve e t h actor reason d = (b, d1)"
      by (cases "rollback_auto_resolve e t h actor reason d") auto
    from status_reversal [OF rb [unfolded rollback_auto_resolve_def restored_eq]] ex run rb ar nf
    show ?thesis by (auto simp: restored_ticket_def)
  next
    case es
    obtain b d1 where rb: "rollback_escalate e t h actor reason d = (b, d1)"
      by (cases "rollback_escalate e t h actor reason d") auto
    from status_reversal [OF rb [unfolded rollback_escalate_def restored_eq]] ex run rb es nf
    show ?thesis by (auto simp: restored_ticket_def)
  next
    case at
    obtain b d1 where rb: "rollback_assign_to_team e t h actor reason d = (b, d1)"
      by (cases "rollback_assign_to_team e t h actor reason d") auto
    from assign_reversal [OF rb] ex run rb at nf
    show ?thesis by (auto simp: restored_ticket_def)
  qed
qed

lemma execute_rollback_ok:
  assumes nf: "\<forall>a. \<not> faults e a"
      and ty: "action_type h \<in> {''AUTO_RESOLVE'', ''ASSIGN_TO_TEAM'', ''ESCALATE''}"
      and t: "find_ticket d (ah_ticket h) = Some t"
      and steps: "response_steps (agent_response t) \<noteq> Inl TypeError"
      and st: "restored_ticket e h t \<noteq> None"
      and asg: "action_type h = ''ASSIGN_TO_TEAM'' \<longrightarrow> previous_assignee h = None"
  shows "fst (execute_rollback e h actor reason d) = Inr True"
proof -
  from nf have g: "\<not> faults e TicketGet" by simp
  note ex = execute_rollback_loaded [OF t g, of actor reason]
  have tid: "ticket_id t = ah_ticket h" using t by (rule find_ticket_key)
  with t have t': "find_ticket d (ticket_id t) = Some t" by simp
  consider (ar) "action_type h = ''AUTO_RESOLVE''" | (at) "action_type h = ''ASSIGN_TO_TEAM''"
    | (es) "action_type h = ''ESCALATE''" using ty by auto
  then show ?thesis
  proof cases
    case ar
    with st obtain s where s: "snapshot_get (before_state h) ''status'' (Some ''in-progress'') = Some s"
      by (auto simp: restored_ticket_def split: option.splits)
    have so: "(if snapshot_truthy (before_state h)
               then snapshot_get (before_state h) ''status'' (Some ''in-progress'')
               else Some ''in-progress'') = Some s"
      using s by (simp add: restored_eq)
    have "fst (rollback_auto_resolve e t h actor reason d)"
      unfolding rollback_auto_resolve_def so
      using nf t' steps by (intro status_reversal_ok) auto
    with ex ar show ?thesis by simp
  next
    case es
    with st obtain s where s: "snapshot_get (before_state h) ''status'' (Some ''new'') = Some s"
      by (auto simp: restored_ticket_def split: option.splits)
    have so: "(if snapshot_truthy (before_state h)
               then snapshot_get (before_state h) ''status'' (Some ''new'')
               else Some ''new'') = Some s"
      using s by (simp add: restored_eq)
    have "fst (rollback_escalate e t h actor reason d)"
      unfolding rollback_escalate_def so
      using nf t' steps by (intro status_reversal_ok) auto
    with ex es show ?thesis by simp
  next
    case at
    have "fst (rollback_assign_to_team e t h actor reason d)"
      using nf t' asg at by (intro assign_reversal_ok) auto
    with ex at show ?thesis by simp
  qed
qed

lemma find_ticket_after:
  assumes "find_ticket d tid = Some t" "ticket_id t' = tid"
      and "tickets d' = upsert ticket_id t' (tickets d)"
  shows "find_ticket d' tid = Some t'"
  using assms find_upsert_same [of ticket_id t' "tickets d"]
  by (simp add: find_ticket_def)

lemma restored_ticket_id: "restored_ticket e h t = Some t' \<Longrightarrow> ticket_id t' = ticket_id t"
  by (auto simp: restored_ticket_def split: if_splits option.splits)

lemma already_rolled_back_rejected:
  assumes "is_staff u \<or> has_role u" "find_history d hid = Some h" "\<not> faults e HistoryGet"
      and "rolled_back h"
  shows "rollback_action e u rf hid d = (Err 400 ''This action was already rolled back'', d)"
  using assms by (auto simp: rollback_action_def history_get_def guarded_def)

lemma find_history_after_mark:
  assumes "find_history d hid = Some h"
      and "histories d' = upsert ah_id (mark_rolled_back e h actor reason) (histories d)"
  shows "find_history d' hid = Some (mark_rolled_back e h actor reason)"
proof -
  have "ah_id h = hid" using assms(1) by (rule find_history_key)
  then have "ah_id (mark_rolled_back e h actor reason) = hid" by (simp add: mark_rolled_back_def)
  with find_upsert_same [of ah_id "mark_rolled_back e h actor reason" "histories d"] assms(2)
  show ?thesis by (simp add: find_history_def)
qed

section \<open>At-most-once rollback\<close>

text \<open>
  Claim C1, as amended. The guard against a second rollback is in the endpoint
  \<^verbatim>\<open>rollback_action\<close>, not in \<^verbatim>\<open>execute_rollback\<close>. For a permitted user and a stored entry:
  when the entry is already rolled back, the endpoint answers 400 with the text that the
  action was already rolled back, and writes nothing. When the entry is not rolled back, is
  of type AUTO\_RESOLVE or ESCALATE with a snapshot that does not hold \<^verbatim>\<open>null\<close> for the
  status, or of type ASSIGN\_TO\_TEAM with a snapshot that names no assignee, its ticket is
  stored and nothing fails, the first request succeeds and the stored entry is marked; every
  later request on the entry is rejected with that error and leaves the whole store, hence the
  status and assignee of the ticket and the rollback fields of the entry, as it was.
\<close>

theorem rollback_at_most_once:
  assumes "is_staff u \<or> has_role u" and "find_history d hid = Some h"
      and "\<not> faults e HistoryGet"
  shows "(rolled_back h \<longrightarrow>
            rollback_action e u rf hid d = (Err 400 ''This action was already rolled back'', d))
       \<and> (\<not> rolled_back h \<and> (\<forall>a. \<not> faults e a)
            \<and> action_type h \<in> {''AUTO_RESOLVE'', ''ASSIGN_TO_TEAM'', ''ESCALATE''}
            \<and> find_ticket d (ah_ticket h) = Some t
            \<and> response_steps (agent_response t) \<noteq> Inl TypeError
            \<and> restored_ticket e h t \<noteq> None
            \<and> (action_type h = ''ASSIGN_TO_TEAM'' \<longrightarrow> previous_assignee h = None) \<longrightarrow>
            (\<exists>body d1 h1. rollback_action e u rf hid d = (Ok200 body, d1)
               \<and> find_history d1 hid = Some h1 \<and> rolled_back h1
               \<and> (\<forall>e2 u2 rf2. (is_staff u2 \<or> has_role u2) \<and> \<not> faults e2 HistoryGet \<longrightarrow>
                     rollback_action e2 u2 rf2 hid d1
                       = (Err 400 ''This action was already rolled back'', d1))))"
proof (intro conjI impI)
  assume "rolled_back h"
  with assms show "rollback_action e u rf hid d = (Err 400 ''This action was already rolled back'', d)"
    by (intro already_rolled_back_rejected)
next
  assume a: "\<not> rolled_back h \<and> (\<forall>a. \<not> faults e a)
            \<and> action_type h \<in> {''AUTO_RESOLVE'', ''ASSIGN_TO_TEAM'', ''ESCALATE''}
            \<and> find_ticket d (ah_ticket h) = Some t
            \<and> response_steps (agent_response t) \<noteq> Inl TypeError
            \<and> restored_ticket e h t \<noteq> None
            \<and> (action_type h = ''ASSIGN_TO_TEAM'' \<longrightarrow> previous_assignee h = None)"
  let ?reason = "case rf of None \<Rightarrow> ''Manual rollback by admin'' | Some r \<Rightarrow> r"
  obtain r d1 where run: "execute_rollback e h (uid u) ?reason d = (r, d1)"
    by (cases "execute_rollback e h (uid u) ?reason d") auto
  have "fst (execute_rollback e h (uid u) ?reason d) = Inr True"
    using a by (intro execute_rollback_ok [where t = t]) auto
  with run have r: "r = Inr True" by simp
  from a have ty: "action_type h \<in> {''AUTO_RESOLVE'', ''ASSIGN_TO_TEAM'', ''ESCALATE''}"
    and t: "find_ticket d (ah_ticket h) = Some t" by auto
  from execute_rollback_cases [OF ty t run] r
  have hs: "histories d1 = upsert ah_id (mark_rolled_back e h (uid u) ?reason) (histories d)"
    by simp
  have f1: "find_history d1 hid = Some (mark_rolled_back e h (uid u) ?reason)"
    using assms(2) hs by (rule find_history_after_mark)
  have cr: "can_rollback (action_type h)"
    using ty by (auto simp: can_rollback_def ROLLBACK_SUPPORTED_def)
  have first: "rollback_action e u rf hid d =
      (Ok200 [(''message'', JStr ''Action rolled back successfully''),
              (''ticket_id'', JNum (real (ah_ticket h))),
              (''action_type'', JStr (action_type h)),
              (''rollback_reason'', JStr ?reason)], d1)"
    using assms a cr run r
    by (simp add: rollback_action_def history_get_def guarded_def Let_def)
  have second: "rollback_action e2 u2 rf2 hid d1
                  = (Err 400 ''This action was already rolled back'', d1)"
    if "is_staff u2 \<or> has_role u2" "\<not> faults e2 HistoryGet" for e2 u2 rf2
    using that(1) f1 that(2)
    by (rule already_rolled_back_rejected) (simp add: mark_rolled_back_def)
  show "\<exists>body d1 h1. rollback_action e u rf hid d = (Ok200 body, d1)
               \<and> find_history d1 hid = Some h1 \<and> rolled_back h1
               \<and> (\<forall>e2 u2 rf2. (is_staff u2 \<or> has_role u2) \<and> \<not> faults e2 HistoryGet \<longrightarrow>
                     rollback_action e2 u2 rf2 hid d1
                       = (Err 400 ''This action was already rolled back'', d1))"
    using first f1 second by (auto simp: mark_rolled_back_def)
qed

text \<open>The sample entry, rolled back by the administrator, and then once more.\<close>

theorem rollback_at_most_once_witness:
  "\<exists>body d1 h1. rollback_action demo_env demo_admin None 7 (demo_db demo_ticket [demo_entry])
                  = (Ok200 body, d1)
     \<and> find_history d1 7 = Some h1 \<and> rolled_back h1
     \<and> (\<forall>e2 u2 rf2. (is_staff u2 \<or> has_role u2) \<and> \<not> faults e2 HistoryGet \<longrightarrow>
           rollback_action e2 u2 rf2 7 d1 = (Err 400 ''This action was already rolled back'', d1))"
proof -
  have 1: "is_staff demo_admin \<or> has_role demo_admin" by (simp add: demo_defs)
  have 2: "find_history (demo_db demo_ticket [demo_entry]) 7 = Some demo_entry"
    by (simp add: demo_defs find_history_def)
  have 3: "\<not> faults demo_env HistoryGet" by (simp add: demo_defs)
  have 4: "\<not> rolled_back demo_entry \<and> (\<forall>a. \<not> faults demo_env a)
            \<and> action_type demo_entry \<in> {''AUTO_RESOLVE'', ''ASSIGN_TO_TEAM'', ''ESCALATE''}
            \<and> find_ticket (demo_db demo_ticket [demo_entry]) (ah_ticket demo_entry) = Some demo_ticket
            \<and> response_steps (agent_response demo_ticket) \<noteq> Inl TypeError
            \<and> restored_ticket demo_env demo_entry demo_ticket \<noteq> None
            \<and> (action_type demo_entry = ''ASSIGN_TO_TEAM'' \<longrightarrow> previous_assignee demo_entry = None)"
    by (simp add: demo_defs find_ticket_def response_steps_def restored_ticket_def snapshot_get_def)
  from rollback_at_most_once [OF 1 2 3, of None demo_ticket] 4 show ?thesis by blast
qed

text \<open>
  Claim C1 as stated fails: \<^verbatim>\<open>execute_rollback\<close> itself does not look at \<^verbatim>\<open>rolled_back\<close>.
  Called on the sample entry already marked as rolled back, while the ticket is resolved, it
  returns \<^verbatim>\<open>True\<close>, sets the ticket back to the snapshot status and overwrites the rollback
  fields of the entry.
\<close>

theorem execute_rollback_repeats_counterexample:
  "execute_rollback demo_env (demo_entry\<lparr>rolled_back := True\<rparr>) ''admin'' ''again''
      (demo_db demo_ticket [demo_entry\<lparr>rolled_back := True\<rparr>])
   = (Inr True,
      (demo_db (demo_ticket\<lparr>status := ''in_progress'', updated_at := 100\<rparr>)
         [demo_entry\<lparr>rolled_back := True, rolled_back_at := Some 100,
                     rolled_back_by := Some ''admin'', rollback_reason := ''again''\<rparr>])
        \<lparr>interactions :=
           [\<lparr>ti_ticket = 1, ti_user = ''admin'', interaction_type = ''agent_response'',
             content = Val (JStr (''Auto-resolution was rolled back.'' @ nl @ nl @ ''Reason: again''
                       @ nl @ nl @ ''Ticket reopened for manual review.'')),
             ti_created_at = 100\<rparr>]\<rparr>)"
  by (simp add: run_defs demo_defs)

section \<open>Rollback restores the snapshot status\<close>

lemma status_rollback_result:
  assumes nf: "\<forall>a. \<not> faults e a"
      and ty: "action_type h = ''AUTO_RESOLVE'' \<or> action_type h = ''ESCALATE''"
      and t: "find_ticket d (ah_ticket h) = Some t"
      and steps: "response_steps (agent_response t) \<noteq> Inl TypeError"
      and s: "snapshot_get (before_state h) ''status''
                (Some (if action_type h = ''AUTO_RESOLVE'' then ''in-progress'' else ''new'')) = Some s"
  shows "fst (execute_rollback e h actor reason d) = Inr True
       \<and> find_ticket (snd (execute_rollback e h actor reason d)) (ah_ticket h)
           = Some (t\<lparr>status := s, updated_at := now e\<rparr>)"
proof -
  from ty have ty3: "action_type h \<in> {''AUTO_RESOLVE'', ''ASSIGN_TO_TEAM'', ''ESCALATE''}" by auto
  from ty s have rt: "restored_ticket e h t = Some (t\<lparr>status := s, updated_at := now e\<rparr>)"
    by (auto simp: restored_ticket_def)
  obtain r d' where run: "execute_rollback e h actor reason d = (r, d')"
    by (cases "execute_rollback e h actor reason d") auto
  have "fst (execute_rollback e h actor reason d) = Inr True"
    using nf ty3 t steps rt ty by (intro execute_rollback_ok [where t = t]) auto
  with run have r: "r = Inr True" by simp
  from execute_rollback_cases [OF ty3 t run] r rt
  have "tickets d' = upsert ticket_id (t\<lparr>status := s, updated_at := now e\<rparr>) (tickets d)" by simp
  have tk: "tickets d' = upsert ticket_id (t\<lparr>status := s, updated_at := now e\<rparr>) (tickets d)"
    by fact
  have tid: "ticket_id (t\<lparr>status := s, updated_at := now e\<rparr>) = ah_ticket h"
    using find_ticket_key [OF t] by simp
  have "find_ticket d' (ah_ticket h) = Some (t\<lparr>status := s, updated_at := now e\<rparr>)"
    using t tid tk by (rule find_ticket_after)
  moreover have "snd (execute_rollback e h actor reason d) = d'" using run by simp
  moreover have "fst (execute_rollback e h actor reason d) = Inr True" using run r by simp
  ultimately show ?thesis by simp
qed

text \<open>
  Claim C2, as amended. When nothing fails, \<^verbatim>\<open>execute_rollback\<close> on an AUTO\_RESOLVE or
  ESCALATE entry succeeds and the stored ticket gets exactly the status recorded in
  \<^verbatim>\<open>before_state\<close>, when the snapshot has one. When the snapshot is absent, or has no status,
  the status becomes the literal \<^verbatim>\<open>in-progress\<close> (with a hyphen) for AUTO\_RESOLVE and
  \<^verbatim>\<open>new\<close> for ESCALATE.
\<close>

theorem rollback_restores_snapshot_status:
  assumes "\<forall>a. \<not> faults e a"
      and "action_type h = ''AUTO_RESOLVE'' \<or> action_type h = ''ESCALATE''"
      and "find_ticket d (ah_ticket h) = Some t"
      and "response_steps (agent_response t) \<noteq> Inl TypeError"
  shows "(\<forall>kvs s. before_state h = Some kvs \<and> map_of kvs ''status'' = Some (Some s) \<longrightarrow>
            fst (execute_rollback e h actor reason d) = Inr True
          \<and> find_ticket (snd (execute_rollback e h actor reason d)) (ah_ticket h)
              = Some (t\<lparr>status := s, updated_at := now e\<rparr>))
       \<and> (before_state h = None \<or> (\<exists>kvs. before_state h = Some kvs \<and> map_of kvs ''status'' = None) \<longrightarrow>
            fst (execute_rollback e h actor reason d) = Inr True
          \<and> find_ticket (snd (execute_rollback e h actor reason d)) (ah_ticket h)
              = Some (t\<lparr>status := (if action_type h = ''AUTO_RESOLVE'' then ''in-progress'' else ''new''),
                        updated_at := now e\<rparr>))"
proof -
  have a: "fst (execute_rollback e h actor reason d) = Inr True
          \<and> find_ticket (snd (execute_rollback e h actor reason d)) (ah_ticket h)
              = Some (t\<lparr>status := s, updated_at := now e\<rparr>)"
    if "before_state h = Some kvs \<and> map_of kvs ''status'' = Some (Some s)" for kvs s
  proof -
    from that have "snapshot_get (before_state h) ''status''
                (Some (if action_type h = ''AUTO_RESOLVE'' then ''in-progress'' else ''new'')) = Some s"
      by (simp add: snapshot_get_def)
    from status_rollback_result [OF assms this] show ?thesis .
  qed
  have b: "fst (execute_rollback e h actor reason d) = Inr True
          \<and> find_ticket (snd (execute_rollback e h actor reason d)) (ah_ticket h)
              = Some (t\<lparr>status := (if action_type h = ''AUTO_RESOLVE'' then ''in-progress'' else ''new''),
                        updated_at := now e\<rparr>)"
    if "before_state h = None \<or> (\<exists>kvs. before_state h = Some kvs \<and> map_of kvs ''status'' = None)"
  proof -
    from that have "snapshot_get (before_state h) ''status''
                (Some (if action_type h = ''AUTO_RESOLVE'' then ''in-progress'' else ''new''))
             = Some (if action_type h = ''AUTO_RESOLVE'' then ''in-progress'' else ''new'')"
      by (auto simp: snapshot_get_def)
    from status_rollback_result [OF assms this] show ?thesis .
  qed
  from a b show ?thesis by blast
qed

text \<open>The sample entry: its snapshot status \<^verbatim>\<open>in_progress\<close> comes back.\<close>

theorem rollback_restores_snapshot_status_witness:
  "fst (execute_rollback demo_env demo_entry ''admin'' ''wrong'' (demo_db demo_ticket [demo_entry]))
     = Inr True
   \<and> find_ticket (snd (execute_rollback demo_env demo_entry ''admin'' ''wrong''
                        (demo_db demo_ticket [demo_entry]))) 1
     = Some (demo_ticket\<lparr>status := ''in_progress'', updated_at := 100\<rparr>)"
proof -
  have 1: "\<forall>a. \<not> faults demo_env a" by (simp add: demo_defs)
  have 2: "action_type demo_entry = ''AUTO_RESOLVE'' \<or> action_type demo_entry = ''ESCALATE''"
    by (simp add: demo_defs)
  have 3: "find_ticket (demo_db demo_ticket [demo_entry]) (ah_ticket demo_entry) = Some demo_ticket"
    by (simp add: demo_defs find_ticket_def)
  have 4: "response_steps (agent_response demo_ticket) \<noteq> Inl TypeError"
    by (simp add: demo_defs response_steps_def)
  have 5: "before_state demo_entry = Some [(''status'', Some ''in_progress'')]
           \<and> map_of [(''status'', Some ''in_progress'')] ''status'' = Some (Some ''in_progress'')"
    by (simp add: demo_defs)
  have 6: "ah_ticket demo_entry = 1" "now demo_env = 100" by (simp_all add: demo_defs)
  note th = rollback_restores_snapshot_status [OF 1 2 3 4, of "''admin''" "''wrong''",
      THEN conjunct1, rule_format, OF 5]
  show ?thesis by (rule th [unfolded 6])
qed

text \<open>
  Claim C2 as stated fails in its default for AUTO\_RESOLVE: without a snapshot the ticket
  gets the status \<^verbatim>\<open>in-progress\<close>, which is not the status \<^verbatim>\<open>in_progress\<close>.
\<close>

theorem rollback_default_status_counterexample:
  "map status (tickets (snd (execute_rollback demo_env (demo_entry\<lparr>before_state := None\<rparr>)
       ''admin'' ''wrong'' (demo_db demo_ticket [demo_entry\<lparr>before_state := None\<rparr>]))))
     = [''in-progress'']
   \<and> map status (tickets (snd (execute_rollback demo_env (demo_entry\<lparr>before_state := None\<rparr>)
       ''admin'' ''wrong'' (demo_db demo_ticket [demo_entry\<lparr>before_state := None\<rparr>]))))
     \<noteq> [''in_progress'']"
  by (simp add: run_defs demo_defs)

section \<open>Rollback under persistence failures\<close>

text \<open>
  Claim C5, as amended. For an entry with a reversal whose ticket is loaded,
  \<^verbatim>\<open>execute_rollback\<close> returns a boolean, and \<^verbatim>\<open>False\<close> whenever the write of the ticket,
  of the interaction record or of the entry fails. The entry is marked as rolled back in the
  store exactly when the call returns \<^verbatim>\<open>True\<close>, and then the ticket has been written with the
  restored value: there is no mark without the effect on the ticket. Writes made before the
  failing one are kept.
\<close>

theorem rollback_failure_keeps_mark_consistent:
  assumes "action_type h \<in> {''AUTO_RESOLVE'', ''ASSIGN_TO_TEAM'', ''ESCALATE''}"
      and "find_ticket d (ah_ticket h) = Some t"
      and "\<not> faults e TicketGet"
      and "execute_rollback e h actor reason d = (r, d')"
  shows "(r = Inr True \<or> r = Inr False)
       \<and> (faults e TicketSave \<or> faults e InteractionCreate \<or> faults e HistorySave
            \<longrightarrow> r = Inr False)
       \<and> (r = Inr False \<longrightarrow> histories d' = histories d)
       \<and> (r = Inr True \<longrightarrow>
             histories d' = upsert ah_id (mark_rolled_back e h actor reason) (histories d)
           \<and> (\<exists>t'. restored_ticket e h t = Some t' \<and> find_ticket d' (ah_ticket h) = Some t'))"
proof -
  note c = execute_rollback_cases [OF assms(1,2,4)]
  have eff: "\<exists>t'. restored_ticket e h t = Some t' \<and> find_ticket d' (ah_ticket h) = Some t'"
    if "r = Inr True"
  proof -
    from c that obtain t' where rt: "restored_ticket e h t = Some t'"
      and tk: "tickets d' = upsert ticket_id t' (tickets d)" by auto
    have tid: "ticket_id t' = ah_ticket h"
      using restored_ticket_id [OF rt] find_ticket_key [OF assms(2)] by simp
    have "find_ticket d' (ah_ticket h) = Some t'"
      using assms(2) tid tk by (rule find_ticket_after)
    with rt show ?thesis by blast
  qed
  from c assms(3) have rb: "r = Inr True \<or> r = Inr False" by blast
  moreover from c rb
  have "faults e TicketSave \<or> faults e InteractionCreate \<or> faults e HistorySave \<longrightarrow> r = Inr False"
    by blast
  moreover from c have "r = Inr False \<longrightarrow> histories d' = histories d" by simp
  moreover from c
  have "r = Inr True \<longrightarrow> histories d' = upsert ah_id (mark_rolled_back e h actor reason) (histories d)"
    by simp
  ultimately show ?thesis using eff by blast
qed

text \<open>The sample entry when the interaction record cannot be written.\<close>

theorem rollback_failure_keeps_mark_consistent_witness:
  "fst (execute_rollback (demo_env\<lparr>faults := (\<lambda>a. a = InteractionCreate)\<rparr>) demo_entry
          ''admin'' ''wrong'' (demo_db demo_ticket [demo_entry])) = Inr False
   \<and> histories (snd (execute_rollback (demo_env\<lparr>faults := (\<lambda>a. a = InteractionCreate)\<rparr>) demo_entry
          ''admin'' ''wrong'' (demo_db demo_ticket [demo_entry]))) = [demo_entry]"
proof -
  let ?e = "demo_env\<lparr>faults := (\<lambda>a. a = InteractionCreate)\<rparr>"
  let ?d = "demo_db demo_ticket [demo_entry]"
  let ?X = "execute_rollback ?e demo_entry ''admin'' ''wrong'' ?d"
  have 1: "action_type demo_entry \<in> {''AUTO_RESOLVE'', ''ASSIGN_TO_TEAM'', ''ESCALATE''}"
    by (simp add: demo_defs)
  have 2: "find_ticket ?d (ah_ticket demo_entry) = Some demo_ticket"
    by (simp add: demo_defs find_ticket_def)
  have 3: "\<not> faults ?e TicketGet" by simp
  have 4: "?X = (fst ?X, snd ?X)" by simp
  have 5: "faults ?e TicketSave \<or> faults ?e InteractionCreate \<or> faults ?e HistorySave" by simp
  have 6: "histories ?d = [demo_entry]" by (simp add: demo_defs)
  note th = rollback_failure_keeps_mark_consistent [OF 1 2 3 4]
  from th 5 have r: "fst ?X = Inr False" by blast
  with th have "histories (snd ?X) = histories ?d" by blast
  with r 6 show ?thesis by simp
qed

text \<open>
  Claim C5 as stated fails: a failing write does not leave the state untouched. When the
  interaction record cannot be written, the reversal of the sample entry returns \<^verbatim>\<open>False\<close>,
  yet the ticket has already been set back to \<^verbatim>\<open>in_progress\<close>, while the entry is not marked:
  an effect on the ticket without the mark.
\<close>

theorem rollback_failure_not_atomic_counterexample:
  "execute_rollback (demo_env\<lparr>faults := (\<lambda>a. a = InteractionCreate)\<rparr>) demo_entry
      ''admin'' ''wrong'' (demo_db demo_ticket [demo_entry])
   = (Inr False,
      demo_db (demo_ticket\<lparr>status := ''in_progress'', updated_at := 100\<rparr>) [demo_entry])"
  by (simp add: run_defs demo_defs)

section \<open>The frame of a team-assignment rollback\<close>

text \<open>
  Claim C10, as amended. \<^verbatim>\<open>execute_rollback\<close> on an ASSIGN\_TO\_TEAM entry leaves every field
  of the ticket as it was, the status in particular, except \<^verbatim>\<open>assigned_to\<close> and the time
  \<^verbatim>\<open>updated_at\<close>, which every save of a ticket sets; the other tickets are not touched. When
  the snapshot names no assignee and nothing fails, it succeeds, and when it succeeds on such
  a snapshot the ticket has no assignee and is updated at the time of the rollback.
\<close>

theorem assignment_rollback_frame:
  assumes "action_type h = ''ASSIGN_TO_TEAM''"
      and "find_ticket d (ah_ticket h) = Some t"
      and "execute_rollback e h actor reason d = (r, d')"
  shows "(\<exists>t'. find_ticket d' (ah_ticket h) = Some t'
            \<and> t'\<lparr>assigned_to := assigned_to t, updated_at := updated_at t\<rparr> = t
            \<and> status t' = status t
            \<and> (r = Inr True \<and> previous_assignee h = None \<longrightarrow>
                 assigned_to t' = None \<and> updated_at t' = now e))
       \<and> (\<forall>tid. tid \<noteq> ah_ticket h \<longrightarrow> find_ticket d' tid = find_ticket d tid)
       \<and> ((\<forall>a. \<not> faults e a) \<and> previous_assignee h = None \<longrightarrow> r = Inr True)"
proof -
  let ?t' = "t\<lparr>assigned_to := previous_assignee h, updated_at := now e\<rparr>"
  have ty: "action_type h \<in> {''AUTO_RESOLVE'', ''ASSIGN_TO_TEAM'', ''ESCALATE''}"
    using assms(1) by simp
  have rt: "restored_ticket e h t = Some ?t'"
    using assms(1) by (simp add: restored_ticket_def)
  have tid: "ticket_id t = ah_ticket h" using assms(2) by (rule find_ticket_key)
  note c = execute_rollback_cases [OF ty assms(2,3)]
  from c rt have alt: "tickets d' = tickets d \<or> tickets d' = upsert ticket_id ?t' (tickets d)"
    by auto
  from c rt have suc: "r = Inr True \<longrightarrow> tickets d' = upsert ticket_id ?t' (tickets d)"
    by auto
  have up: "find_ticket d' (ah_ticket h) = Some ?t'" if "tickets d' = upsert ticket_id ?t' (tickets d)"
  proof -
    have "ticket_id ?t' = ah_ticket h" using tid by simp
    with assms(2) show ?thesis using that by (rule find_ticket_after)
  qed
  have same: "find_ticket d' (ah_ticket h) = Some t" if "tickets d' = tickets d"
    using that assms(2) by (simp add: find_ticket_def)
  have one: "\<exists>t'. find_ticket d' (ah_ticket h) = Some t'
            \<and> t'\<lparr>assigned_to := assigned_to t, updated_at := updated_at t\<rparr> = t
            \<and> status t' = status t
            \<and> (r = Inr True \<longrightarrow> assigned_to t' = previous_assignee h \<and> updated_at t' = now e)"
  proof (cases "tickets d' = upsert ticket_id ?t' (tickets d)")
    case True
    from up [OF True] show ?thesis by (intro exI [of _ ?t']) simp
  next
    case False
    with alt suc have "tickets d' = tickets d" "r \<noteq> Inr True" by auto
    with same show ?thesis by (intro exI [of _ t]) simp
  qed
  have others: "find_ticket d' k = find_ticket d k" if "k \<noteq> ah_ticket h" for k
  proof -
    from that tid have "k \<noteq> ticket_id ?t'" by simp
    from find_upsert_other [of k ticket_id ?t' "tickets d", OF this] alt show ?thesis
      by (auto simp: find_ticket_def)
  qed
  have ok: "r = Inr True"
    if "(\<forall>a. \<not> faults e a) \<and> previous_assignee h = None"
  proof -
    from that have g: "\<not> faults e TicketGet" by simp
    from assms(2) tid have t': "find_ticket d (ticket_id t) = Some t" by simp
    have "fst (rollback_assign_to_team e t h actor reason d)"
      using that t' by (intro assign_reversal_ok) auto
    with execute_rollback_loaded [OF assms(2) g, of actor reason] assms(1,3) show ?thesis by simp
  qed
  from one obtain t' where t': "find_ticket d' (ah_ticket h) = Some t'"
      "t'\<lparr>assigned_to := assigned_to t, updated_at := updated_at t\<rparr> = t"
      "status t' = status t"
      "r = Inr True \<longrightarrow> assigned_to t' = previous_assignee h \<and> updated_at t' = now e"
    by blast
  from t'(4) have "r = Inr True \<and> previous_assignee h = None \<longrightarrow>
      assigned_to t' = None \<and> updated_at t' = now e"
    by simp
  with t'(1,2,3) have one': "\<exists>t'. find_ticket d' (ah_ticket h) = Some t'
            \<and> t'\<lparr>assigned_to := assigned_to t, updated_at := updated_at t\<rparr> = t
            \<and> status t' = status t
            \<and> (r = Inr True \<and> previous_assignee h = None \<longrightarrow>
                 assigned_to t' = None \<and> updated_at t' = now e)"
    by blast
  from one' others ok show ?thesis by blast
qed

text \<open>A team assignment of the sample ticket, with the snapshot the handler writes.\<close>

theorem assignment_rollback_frame_witness:
  "\<exists>t'. find_ticket (snd (execute_rollback demo_env
              (demo_entry\<lparr>action_type := ''ASSIGN_TO_TEAM'',
                          before_state := Some [(''assigned_to_id'', None), (''status'', Some ''new'')]\<rparr>)
              ''admin'' ''wrong''
              (demo_db (demo_ticket\<lparr>status := ''assigned''\<rparr>)
                 [demo_entry\<lparr>action_type := ''ASSIGN_TO_TEAM'',
                          before_state := Some [(''assigned_to_id'', None), (''status'', Some ''new'')]\<rparr>]))) 1
           = Some t'
        \<and> status t' = ''assigned''"
proof -
  let ?h = "demo_entry\<lparr>action_type := ''ASSIGN_TO_TEAM'',
                          before_state := Some [(''assigned_to_id'', None), (''status'', Some ''new'')]\<rparr>"
  let ?t = "demo_ticket\<lparr>status := ''assigned''\<rparr>"
  let ?d = "demo_db ?t [?h]"
  let ?X = "execute_rollback demo_env ?h ''admin'' ''wrong'' ?d"
  have 1: "action_type ?h = ''ASSIGN_TO_TEAM''" by simp
  have 2: "find_ticket ?d (ah_ticket ?h) = Some ?t" by (simp add: demo_defs find_ticket_def)
  have 3: "?X = (fst ?X, snd ?X)" by simp
  have 4: "ah_ticket ?h = 1" "status ?t = ''assigned''" by (simp_all add: demo_defs)
  note th = assignment_rollback_frame [OF 1 2 3, THEN conjunct1]
  then obtain t' where "find_ticket (snd ?X) (ah_ticket ?h) = Some t'" "status t' = status ?t"
    by blast
  with 4 have "find_ticket (snd ?X) 1 = Some t' \<and> status t' = ''assigned''" by simp
  then show ?thesis by blast
qed

text \<open>
  Claim C10 as stated fails for one field: the save of the reversal sets \<^verbatim>\<open>updated_at\<close>
  (\<^verbatim>\<open>auto_now\<close>). The sample ticket, last updated at time 20, is updated at time 100 after
  the rollback.
\<close>

theorem assignment_rollback_touches_updated_at_counterexample:
  "map updated_at (tickets (demo_db (demo_ticket\<lparr>status := ''assigned''\<rparr>)
       [demo_entry\<lparr>action_type := ''ASSIGN_TO_TEAM'',
                   before_state := Some [(''assigned_to_id'', None), (''status'', Some ''new'')]\<rparr>]))
     = [20]
   \<and> map updated_at (tickets (snd (execute_rollback demo_env
         (demo_entry\<lparr>action_type := ''ASSIGN_TO_TEAM'',
                     before_state := Some [(''assigned_to_id'', None), (''status'', Some ''new'')]\<rparr>)
         ''admin'' ''wrong''
         (demo_db (demo_ticket\<lparr>status := ''assigned''\<rparr>)
            [demo_entry\<lparr>action_type := ''ASSIGN_TO_TEAM'',
                   before_state := Some [(''assigned_to_id'', None), (''status'', Some ''new'')]\<rparr>]))))
     = [100]"
  by (simp add: run_defs demo_defs)

section \<open>Facts about the handlers\<close>

lemma handle_escalate_result:
  assumes nf: "\<forall>a. \<not> faults e a" and t: "find_ticket d (ticket_id t) = Some orig"
  shows "handle_escalate e t params d =
     (Inr True,
      d\<lparr>tickets := upsert ticket_id (t\<lparr>status := ''escalated'', updated_at := now e\<rparr>) (tickets d),
        histories := histories d @
          [(history_row (ticket_id t) ''ESCALATE'' params
              (response_field (agent_response t) ''confidence'' (JNum 0))
              (Val (dict_get params ''escalation_reason'' (JStr ''Requires human attention'')))
              ''rollback_escalate'' [(''status'', Some (status t))] [(''status'', Some ''escalated'')])
            \<lparr>ah_id := fresh_id (map ah_id (histories d)), executed_at := now e\<rparr>],
        interactions := interactions d @
          [\<lparr>ti_ticket = ticket_id t, ti_user = user t, interaction_type = ''agent_response'',
            content = Fmt ''Escalated: {}''
               [dict_get params ''escalation_reason'' (JStr ''Requires human attention'')],
            ti_created_at = now e\<rparr>],
        outbox := (case slack_token d of
                     None \<Rightarrow> outbox d
                   | Some tok \<Rightarrow> outbox d @
                       [\<lparr>n_kind = ''escalation'', n_recipient = user t, n_ticket = ticket_id t,
                         n_params = params\<rparr>])\<rparr>)"
proof -
  have save: "Ticket_save e (t\<lparr>status := ''escalated''\<rparr>) d =
      (Inr (), d\<lparr>tickets := upsert ticket_id (t\<lparr>status := ''escalated'', updated_at := now e\<rparr>) (tickets d)\<rparr>)"
    using nf t by (simp add: Ticket_save_plain)
  show ?thesis
    using nf
    by (simp add: handle_escalate_def Let_def seq_def save history_create_def interaction_create_def
        notify_def guarded_def returning_def split: option.splits)
qed

section \<open>The follow-up check\<close>

text \<open>
  Claim C7, as amended. For a stored ticket, \<^verbatim>\<open>check_ticket_followup\<close> does nothing when the
  status is \<^verbatim>\<open>resolved\<close> or \<^verbatim>\<open>closed\<close>, whatever fails and however often it fires: the store,
  and so the action history and the status, stay as they were. For any other status, when
  nothing fails, it escalates: the ticket gets the status \<^verbatim>\<open>escalated\<close> and one ESCALATE
  entry is added to the history, whose reason is the text \<^verbatim>\<open>Solution did not resolve issue
  within expected timeframe\<close> (with a capital S), passed as \<^verbatim>\<open>escalation_reason\<close>.
\<close>

theorem followup_check_escalates_unresolved:
  assumes "find_ticket d tid = Some t"
  shows "(status t \<in> {''resolved'', ''closed''} \<longrightarrow>
             check_ticket_followup e tid p d = d
           \<and> check_ticket_followup e2 tid p2 (check_ticket_followup e tid p d) = d)
       \<and> (status t \<notin> {''resolved'', ''closed''} \<and> (\<forall>a. \<not> faults e a) \<longrightarrow>
             find_ticket (check_ticket_followup e tid p d) tid
               = Some (t\<lparr>status := ''escalated'', updated_at := now e\<rparr>)
           \<and> (\<exists>row. histories (check_ticket_followup e tid p d) = histories d @ [row]
                 \<and> action_type row = ''ESCALATE'' \<and> ah_ticket row = tid
                 \<and> agent_reasoning row
                     = Val (JStr ''Solution did not resolve issue within expected timeframe'')
                 \<and> action_params row
                     = [(''escalation_reason'',
                           JStr ''Solution did not resolve issue within expected timeframe''),
                        (''priority'', JStr ''high'')]
                 \<and> rollback_possible row
                 \<and> before_state row = Some [(''status'', Some (status t))]
                 \<and> after_state row = Some [(''status'', Some ''escalated'')]))"
proof -
  have tid: "ticket_id t = tid" using assms by (rule find_ticket_key)
  have noop: "check_ticket_followup e' tid p' d = d" if "status t \<in> {''resolved'', ''closed''}" for e' p'
    using that assms
    by (auto simp: check_ticket_followup_def seq_def ticket_get_def guarded_def returning_def)
  have esc: "find_ticket (check_ticket_followup e tid p d) tid
               = Some (t\<lparr>status := ''escalated'', updated_at := now e\<rparr>)
           \<and> (\<exists>row. histories (check_ticket_followup e tid p d) = histories d @ [row]
                 \<and> action_type row = ''ESCALATE'' \<and> ah_ticket row = tid
                 \<and> agent_reasoning row
                     = Val (JStr ''Solution did not resolve issue within expected timeframe'')
                 \<and> action_params row
                     = [(''escalation_reason'',
                           JStr ''Solution did not resolve issue within expected timeframe''),
                        (''priority'', JStr ''high'')]
                 \<and> rollback_possible row
                 \<and> before_state row = Some [(''status'', Some (status t))]
                 \<and> after_state row = Some [(''status'', Some ''escalated'')])"
    if "status t \<notin> {''resolved'', ''closed''} \<and> (\<forall>a. \<not> faults e a)"
  proof -
    from that have nf: "\<forall>a. \<not> faults e a" and st: "status t \<noteq> ''resolved''" "status t \<noteq> ''closed''"
      by auto
    from assms tid have t': "find_ticket d (ticket_id t) = Some t" by simp
    note h = handle_escalate_result [OF nf t', of followup_params]
    have run: "check_ticket_followup e tid p d = snd (handle_escalate e t followup_params d)"
      using nf assms st h
      by (simp add: check_ticket_followup_def seq_def ticket_get_def guarded_def returning_def)
    have ft: "find_ticket (check_ticket_followup e tid p d) tid
               = Some (t\<lparr>status := ''escalated'', updated_at := now e\<rparr>)"
    proof -
      have tk: "tickets (check_ticket_followup e tid p d)
                 = upsert ticket_id (t\<lparr>status := ''escalated'', updated_at := now e\<rparr>) (tickets d)"
        unfolding run h by simp
      have "ticket_id (t\<lparr>status := ''escalated'', updated_at := now e\<rparr>) = tid" using tid by simp
      with assms show ?thesis using tk by (rule find_ticket_after)
    qed
    have hs: "histories (check_ticket_followup e tid p d) = histories d @
          [(history_row (ticket_id t) ''ESCALATE'' followup_params
              (response_field (agent_response t) ''confidence'' (JNum 0))
              (Val (dict_get followup_params ''escalation_reason'' (JStr ''Requires human attention'')))
              ''rollback_escalate'' [(''status'', Some (status t))] [(''status'', Some ''escalated'')])
            \<lparr>ah_id := fresh_id (map ah_id (histories d)), executed_at := now e\<rparr>]"
      unfolding run h by simp
    show ?thesis
      using ft hs tid
      by (simp add: history_row_def followup_params_def dict_get_def)
  qed
  from noop esc show ?thesis by simp
qed

text \<open>The sample ticket: resolved, the check changes nothing; in progress, it is escalated.\<close>

theorem followup_check_escalates_unresolved_witness:
  "check_ticket_followup demo_env 1 [] (demo_db demo_ticket []) = demo_db demo_ticket []
   \<and> find_ticket (check_ticket_followup demo_env 1 []
                    (demo_db (demo_ticket\<lparr>status := ''in_progress''\<rparr>) [])) 1
       = Some (demo_ticket\<lparr>status := ''escalated'', updated_at := 100\<rparr>)"
proof -
  let ?t = "demo_ticket\<lparr>status := ''in_progress''\<rparr>"
  have 1: "find_ticket (demo_db demo_ticket []) 1 = Some demo_ticket"
    by (simp add: demo_defs find_ticket_def)
  have 2: "status demo_ticket \<in> {''resolved'', ''closed''}" by (simp add: demo_defs)
  have 3: "find_ticket (demo_db ?t []) 1 = Some ?t"
    by (simp add: demo_defs find_ticket_def)
  have 4: "status ?t \<notin> {''resolved'', ''closed''} \<and> (\<forall>a. \<not> faults demo_env a)"
    by (simp add: demo_defs)
  have 5: "now demo_env = 100" by (simp add: demo_defs)
  from followup_check_escalates_unresolved [OF 1, of demo_env "[]", THEN conjunct1] 2
  have a: "check_ticket_followup demo_env 1 [] (demo_db demo_ticket []) = demo_db demo_ticket []"
    by blast
  from followup_check_escalates_unresolved [OF 3, of demo_env "[]", THEN conjunct2] 4
  have "find_ticket (check_ticket_followup demo_env 1 [] (demo_db ?t [])) 1
       = Some (?t\<lparr>status := ''escalated'', updated_at := now demo_env\<rparr>)"
    by blast
  with a 5 show ?thesis by simp
qed

text \<open>
  Claim C7 as stated fails only in the text of the reason: the entry written for the sample
  ticket in progress records \<^verbatim>\<open>Solution did not resolve issue within expected timeframe\<close>, not
  the string of the claim, which starts with a small letter.
\<close>

theorem followup_reason_text_counterexample:
  "map agent_reasoning (histories (check_ticket_followup demo_env 1 []
       (demo_db (demo_ticket\<lparr>status := ''in_progress''\<rparr>) [])))
     = [Val (JStr ''Solution did not resolve issue within expected timeframe'')]
   \<and> map agent_reasoning (histories (check_ticket_followup demo_env 1 []
       (demo_db (demo_ticket\<lparr>status := ''in_progress''\<rparr>) [])))
     \<noteq> [Val (JStr ''solution did not resolve issue within expected timeframe'')]"
  by (simp add: run_defs demo_defs Let_def)

lemma handle_auto_resolve_result:
  assumes nf: "\<forall>a. \<not> faults e a"
      and una: "assigned_to t = None"
      and saved: "fst (Ticket_save e (t\<lparr>status := ''resolved''\<rparr>) d) = Inr ()"
  shows "fst (handle_auto_resolve e t params d) = Inr True
       \<and> tickets (snd (handle_auto_resolve e t params d))
           = upsert ticket_id (t\<lparr>status := ''resolved'', updated_at := now e\<rparr>) (tickets d)
       \<and> histories (snd (handle_auto_resolve e t params d)) = histories d @
           [(history_row (ticket_id t) ''AUTO_RESOLVE'' params
              (response_field (agent_response t) ''confidence'' (JNum 0))
              (Val (response_field (agent_response t) ''explanation'' (JStr [])))
              ''rollback_auto_resolve''
              [(''status'', Some (status t)), (''assigned_to_id'', assigned_to t)]
              [(''status'', Some ''resolved''), (''assigned_to_id'', assigned_to t)])
            \<lparr>ah_id := fresh_id (map ah_id (histories d)), executed_at := now e\<rparr>]
       \<and> interactions (snd (handle_auto_resolve e t params d)) = interactions d @
           [\<lparr>ti_ticket = ticket_id t, ti_user = user t, interaction_type = ''agent_response'',
             content = Fmt (''Auto-resolved by AI Agent.'' @ nl @ nl @ ''Resolution:'' @ nl @ ''{}'')
                         [dict_get params ''resolution_steps'' (JStr ''No steps provided'')],
             ti_created_at = now e\<rparr>]
       \<and> resolutions (snd (handle_auto_resolve e t params d))
           = (case find_resolution d (ticket_id t) of
                Some r \<Rightarrow> resolutions d
              | None \<Rightarrow> resolutions d @ [new_resolution e (ticket_id t) ''AUTO_RESOLVE''])
       \<and> scheduled (snd (handle_auto_resolve e t params d)) = scheduled d @
           [\<lparr>task_name = ''schedule_resolution_followup'', task_ticket = ticket_id t,
             task_params = None, task_when = Countdown 86400\<rparr>]"
proof -
  let ?t = "t\<lparr>status := ''resolved''\<rparr>"
  from saved obtain d1 where save: "Ticket_save e ?t d = (Inr (), d1)"
    by (cases "Ticket_save e ?t d") auto
  from Ticket_save_frame [OF save]
  have fr: "histories d1 = histories d" "interactions d1 = interactions d"
    "resolutions d1 = resolutions d" "scheduled d1 = scheduled d"
    "tickets d1 = upsert ticket_id (t\<lparr>status := ''resolved'', updated_at := now e\<rparr>) (tickets d)"
    by auto
  have fres: "find_resolution d1 k = find_resolution d k" for k
    using fr by (simp add: find_resolution_def)
  show ?thesis
    using nf fr una
    by (simp add: handle_auto_resolve_def assignee_user_id_def Let_def seq_def save
        history_create_def interaction_create_def resolution_get_or_create_def notify_def
        apply_async_def guarded_def returning_def find_resolution_def split: option.splits)
qed

section \<open>The postconditions of an auto-resolution\<close>

text \<open>
  For a ticket without assignee the postconditions hold. When nothing fails,
  \<^verbatim>\<open>handle_auto_resolve\<close> on such a stored ticket (whose agent response lists its steps as
  strings) returns \<^verbatim>\<open>True\<close>; the ticket is stored with status
  \<^verbatim>\<open>resolved\<close>; exactly one entry is added to the action history, of type AUTO\_RESOLVE, with
  \<^verbatim>\<open>rollback_possible\<close> set, the snapshot of status and assignee taken before the change and
  the snapshot taken after it; one interaction record with the resolution text is added; the
  resolution-tracking row of the ticket exists afterwards, created only when there was none;
  and one task \<^verbatim>\<open>schedule_resolution_followup\<close> is scheduled 86400 seconds (24 hours) out.
\<close>

lemma auto_resolve_unassigned:
  assumes "\<forall>a. \<not> faults e a"
      and "find_ticket d (ticket_id t) = Some t"
      and "response_steps (agent_response t) \<noteq> Inl TypeError"
      and "assigned_to t = None"
  shows "\<exists>d'. handle_auto_resolve e t params d = (Inr True, d')
      \<and> find_ticket d' (ticket_id t) = Some (t\<lparr>status := ''resolved'', updated_at := now e\<rparr>)
      \<and> (\<exists>row. histories d' = histories d @ [row]
            \<and> action_type row = ''AUTO_RESOLVE'' \<and> ah_ticket row = ticket_id t
            \<and> rollback_possible row \<and> \<not> rolled_back row
            \<and> before_state row
                = Some [(''status'', Some (status t)), (''assigned_to_id'', assigned_to t)]
            \<and> after_state row
                = Some [(''status'', Some ''resolved''), (''assigned_to_id'', assigned_to t)])
      \<and> (\<exists>i. interactions d' = interactions d @ [i]
            \<and> ti_ticket i = ticket_id t \<and> interaction_type i = ''agent_response''
            \<and> content i = Fmt (''Auto-resolved by AI Agent.'' @ nl @ nl @ ''Resolution:'' @ nl @ ''{}'')
                             [dict_get params ''resolution_steps'' (JStr ''No steps provided'')])
      \<and> resolutions d'
           = (case find_resolution d (ticket_id t) of
                Some r \<Rightarrow> resolutions d
              | None \<Rightarrow> resolutions d @ [new_resolution e (ticket_id t) ''AUTO_RESOLVE''])
      \<and> find_resolution d' (ticket_id t) \<noteq> None
      \<and> scheduled d' = scheduled d @
           [\<lparr>task_name = ''schedule_resolution_followup'', task_ticket = ticket_id t,
             task_params = None, task_when = Countdown 86400\<rparr>]"
proof -
  let ?d' = "snd (handle_auto_resolve e t params d)"
  have saved: "fst (Ticket_save e (t\<lparr>status := ''resolved''\<rparr>) d) = Inr ()"
    using assms by (intro Ticket_save_ok [where orig = t]) auto
  note r = handle_auto_resolve_result [OF assms(1) assms(4) saved, of params]
  have run: "handle_auto_resolve e t params d = (Inr True, ?d')"
    using r by (cases "handle_auto_resolve e t params d") simp
  have tk: "tickets ?d' = upsert ticket_id (t\<lparr>status := ''resolved'', updated_at := now e\<rparr>) (tickets d)"
    using r by simp
  have ft: "find_ticket ?d' (ticket_id t) = Some (t\<lparr>status := ''resolved'', updated_at := now e\<rparr>)"
    using assms(2) _ tk by (rule find_ticket_after) simp
  have res: "resolutions ?d'
           = (case find_resolution d (ticket_id t) of
                Some r \<Rightarrow> resolutions d
              | None \<Rightarrow> resolutions d @ [new_resolution e (ticket_id t) ''AUTO_RESOLVE''])"
    using r by simp
  have fr: "find_resolution ?d' (ticket_id t) \<noteq> None"
  proof (cases "find_resolution d (ticket_id t)")
    case None
    then have "ticket_id t \<notin> tr_ticket ` set (resolutions d)"
      by (auto simp: find_resolution_def find_None_iff)
    with None res
    find_append_same [of tr_ticket "new_resolution e (ticket_id t) ''AUTO_RESOLVE''" "resolutions d"]
    show ?thesis by (simp add: find_resolution_def new_resolution_def)
  next
    case (Some r0)
    with res show ?thesis by (simp add: find_resolution_def)
  qed
  show ?thesis
    apply (rule exI [of _ ?d'])
    using run ft res fr r
    by (simp add: history_row_def)
qed

text \<open>The sample ticket while in progress.\<close>

lemma auto_resolve_unassigned_example:
  "\<exists>d'. handle_auto_resolve demo_env (demo_ticket\<lparr>status := ''in_progress''\<rparr>) []
            (demo_db (demo_ticket\<lparr>status := ''in_progress''\<rparr>) []) = (Inr True, d')
      \<and> find_ticket d' 1 = Some (demo_ticket\<lparr>status := ''resolved'', updated_at := 100\<rparr>)
      \<and> (\<exists>row. histories d' = [row] \<and> rollback_possible row
             \<and> before_state row = Some [(''status'', Some ''in_progress''), (''assigned_to_id'', None)])
      \<and> scheduled d' =
           [\<lparr>task_name = ''schedule_resolution_followup'', task_ticket = 1,
             task_params = None, task_when = Countdown 86400\<rparr>]"
proof -
  let ?t = "demo_ticket\<lparr>status := ''in_progress''\<rparr>"
  let ?d = "demo_db ?t []"
  have 1: "\<forall>a. \<not> faults demo_env a" by (simp add: demo_defs)
  have 2: "find_ticket ?d (ticket_id ?t) = Some ?t" by (simp add: demo_defs find_ticket_def)
  have 3: "response_steps (agent_response ?t) \<noteq> Inl TypeError"
    by (simp add: demo_defs response_steps_def)
  have 0: "assigned_to ?t = None" by (simp add: demo_defs)
  have 4: "ticket_id ?t = 1" "now demo_env = 100" "histories ?d = []" "scheduled ?d = []"
    "status ?t = ''in_progress''" "assigned_to ?t = None"
    "?t\<lparr>status := ''resolved'', updated_at := 100\<rparr> = demo_ticket\<lparr>status := ''resolved'', updated_at := 100\<rparr>"
    by (simp_all add: demo_defs)
  from auto_resolve_unassigned [OF 1 2 3 0, of "[]"]
  obtain d' row where "handle_auto_resolve demo_env ?t [] ?d = (Inr True, d')"
    "find_ticket d' (ticket_id ?t) = Some (?t\<lparr>status := ''resolved'', updated_at := now demo_env\<rparr>)"
    "histories d' = histories ?d @ [row]" "rollback_possible row"
    "before_state row = Some [(''status'', Some (status ?t)), (''assigned_to_id'', assigned_to ?t)]"
    "scheduled d' = scheduled ?d @
           [\<lparr>task_name = ''schedule_resolution_followup'', task_ticket = ticket_id ?t,
             task_params = None, task_when = Countdown 86400\<rparr>]"
    by blast
  then show ?thesis unfolding 4 by (intro exI [of _ d'] conjI exI [of _ row]) simp_all
qed

text \<open>
  Claim C6 holds of the code for tickets without assignee only. The handler takes the
  snapshot by reading \<^verbatim>\<open>ticket.assigned_to.user_id\<close>, an attribute the user model does not
  have: for every ticket with an assignee, \<^verbatim>\<open>handle_auto_resolve\<close> raises
  \<^verbatim>\<open>AttributeError\<close> before any write, and \<^verbatim>\<open>execute_autonomous_action\<close> on such a stored
  ticket returns \<^verbatim>\<open>False\<close> with the store as it was: no status change, no history entry, no
  interaction, no resolution row, no follow-up.
\<close>

theorem auto_resolve_assigned_ticket_fails:
  assumes "assigned_to t \<noteq> None"
  shows "handle_auto_resolve e t params d = (Inl AttributeError, d)
       \<and> (find_ticket d tid = Some t \<and> \<not> faults e TicketGet \<longrightarrow>
            execute_autonomous_action e tid ''AUTO_RESOLVE'' params d = (False, d))"
proof -
  from assms obtain u where u: "assigned_to t = Some u" by auto
  have h: "handle_auto_resolve e t params d = (Inl AttributeError, d)" for d
    using u by (simp add: handle_auto_resolve_def seq_def assignee_user_id_def raising_def)
  have "execute_autonomous_action e tid ''AUTO_RESOLVE'' params d = (False, d)"
    if "find_ticket d tid = Some t" "\<not> faults e TicketGet"
    using that h [of d]
    by (simp add: execute_autonomous_action_def seq_def ticket_get_def guarded_def)
  with h show ?thesis by blast
qed

text \<open>The sample ticket while in progress and assigned to the administrator.\<close>

theorem auto_resolve_assigned_ticket_fails_witness:
  "handle_auto_resolve demo_env
      (demo_ticket\<lparr>status := ''in_progress'', assigned_to := Some ''admin''\<rparr>) []
      (demo_db (demo_ticket\<lparr>status := ''in_progress'', assigned_to := Some ''admin''\<rparr>) [])
     = (Inl AttributeError,
        demo_db (demo_ticket\<lparr>status := ''in_progress'', assigned_to := Some ''admin''\<rparr>) [])
   \<and> execute_autonomous_action demo_env 1 ''AUTO_RESOLVE'' []
      (demo_db (demo_ticket\<lparr>status := ''in_progress'', assigned_to := Some ''admin''\<rparr>) [])
     = (False,
        demo_db (demo_ticket\<lparr>status := ''in_progress'', assigned_to := Some ''admin''\<rparr>) [])"
  using auto_resolve_assigned_ticket_fails
    [of "demo_ticket\<lparr>status := ''in_progress'', assigned_to := Some ''admin''\<rparr>" demo_env "[]"
        "demo_db (demo_ticket\<lparr>status := ''in_progress'', assigned_to := Some ''admin''\<rparr>) []" 1]
  by (simp add: demo_defs find_ticket_def)

section \<open>Auto-resolution of a ticket that is already resolved\<close>

text \<open>
  Claim C3, as amended. The handlers have no guard on the current status. When nothing
  fails, executing AUTO\_RESOLVE on a stored ticket without assignee whose status is already
  \<^verbatim>\<open>resolved\<close> returns \<^verbatim>\<open>True\<close> and leaves the status \<^verbatim>\<open>resolved\<close>, but it is not a no-op: one more
  AUTO\_RESOLVE entry is added to the action history, whose snapshots before and after both
  record the status \<^verbatim>\<open>resolved\<close>, with one more interaction record and one more scheduled
  follow-up; only an existing resolution-tracking row is left as it is.
\<close>

theorem auto_resolve_of_resolved_ticket_adds_entry:
  assumes "\<forall>a. \<not> faults e a"
      and "find_ticket d tid = Some t"
      and "status t = ''resolved''"
      and "assigned_to t = None"
  shows "\<exists>d'. execute_autonomous_action e tid ''AUTO_RESOLVE'' params d = (True, d')
      \<and> find_ticket d' tid = Some (t\<lparr>updated_at := now e\<rparr>)
      \<and> (\<exists>row. histories d' = histories d @ [row]
            \<and> action_type row = ''AUTO_RESOLVE'' \<and> ah_ticket row = tid
            \<and> before_state row
                = Some [(''status'', Some ''resolved''), (''assigned_to_id'', assigned_to t)]
            \<and> after_state row
                = Some [(''status'', Some ''resolved''), (''assigned_to_id'', assigned_to t)])
      \<and> length (interactions d') = Suc (length (interactions d))
      \<and> length (scheduled d') = Suc (length (scheduled d))
      \<and> (find_resolution d tid \<noteq> None \<longrightarrow> resolutions d' = resolutions d)"
proof -
  have tid: "ticket_id t = tid" using assms(2) by (rule find_ticket_key)
  have same: "t\<lparr>status := ''resolved''\<rparr> = t" using assms(3) by (cases t) auto
  from assms(2) tid have t': "find_ticket d (ticket_id t) = Some t" by simp
  have saved: "fst (Ticket_save e (t\<lparr>status := ''resolved''\<rparr>) d) = Inr ()"
    unfolding same using Ticket_save_resolved_again [OF t' assms(3), of e] assms(1) by simp
  obtain x d' where hrun: "handle_auto_resolve e t params d = (x, d')"
    by (cases "handle_auto_resolve e t params d") auto
  note r = handle_auto_resolve_result [OF assms(1) assms(4) saved, of params,
      unfolded hrun fst_conv snd_conv]
  from r have x: "x = Inr True" by simp
  have run: "execute_autonomous_action e tid ''AUTO_RESOLVE'' params d = (True, d')"
    using assms(1,2) hrun x
    by (simp add: execute_autonomous_action_def seq_def ticket_get_def guarded_def)
  have "t\<lparr>status := ''resolved'', updated_at := now e\<rparr> = t\<lparr>updated_at := now e\<rparr>"
    using same by (cases t) auto
  with r have tk: "tickets d' = upsert ticket_id (t\<lparr>updated_at := now e\<rparr>) (tickets d)"
    by simp
  have ft: "find_ticket d' tid = Some (t\<lparr>updated_at := now e\<rparr>)"
    using assms(2) _ tk by (rule find_ticket_after) (simp add: tid)
  have hs: "\<exists>row. histories d' = histories d @ [row]
            \<and> action_type row = ''AUTO_RESOLVE'' \<and> ah_ticket row = tid
            \<and> before_state row
                = Some [(''status'', Some ''resolved''), (''assigned_to_id'', assigned_to t)]
            \<and> after_state row
                = Some [(''status'', Some ''resolved''), (''assigned_to_id'', assigned_to t)]"
    using r tid assms(3) by (simp add: history_row_def)
  have li: "length (interactions d') = Suc (length (interactions d))" using r by simp
  have ls: "length (scheduled d') = Suc (length (scheduled d))" using r by simp
  have rs: "find_resolution d tid \<noteq> None \<longrightarrow> resolutions d' = resolutions d"
    using r tid by (auto split: option.splits)
  from run ft hs li ls rs show ?thesis by blast
qed

text \<open>The sample ticket, resolved, with the entry of its first auto-resolution.\<close>

theorem auto_resolve_of_resolved_ticket_adds_entry_witness:
  "\<exists>d' row. execute_autonomous_action demo_env 1 ''AUTO_RESOLVE'' []
               (demo_db demo_ticket [demo_entry]) = (True, d')
      \<and> histories d' = [demo_entry, row]
      \<and> before_state row = Some [(''status'', Some ''resolved''), (''assigned_to_id'', None)]
      \<and> after_state row = Some [(''status'', Some ''resolved''), (''assigned_to_id'', None)]"
proof -
  let ?d = "demo_db demo_ticket [demo_entry]"
  have 1: "\<forall>a. \<not> faults demo_env a" by (simp add: demo_defs)
  have 2: "find_ticket ?d 1 = Some demo_ticket" by (simp add: demo_defs find_ticket_def)
  have 3: "status demo_ticket = ''resolved''" by (simp add: demo_defs)
  have 4: "histories ?d = [demo_entry]" "assigned_to demo_ticket = None"
    by (simp_all add: demo_defs)
  from auto_resolve_of_resolved_ticket_adds_entry [OF 1 2 3 4(2), of "[]"]
  obtain d' row where "execute_autonomous_action demo_env 1 ''AUTO_RESOLVE'' [] ?d = (True, d')"
    "histories d' = histories ?d @ [row]"
    "before_state row
       = Some [(''status'', Some ''resolved''), (''assigned_to_id'', assigned_to demo_ticket)]"
    "after_state row
       = Some [(''status'', Some ''resolved''), (''assigned_to_id'', assigned_to demo_ticket)]"
    by blast
  then show ?thesis unfolding 4 by (intro exI [of _ d'] exI [of _ row]) simp
qed

text \<open>
  Claim C3 as stated fails: on the sample store, where the ticket is resolved and the history
  holds the entry of its auto-resolution, a second AUTO\_RESOLVE succeeds and leaves two
  entries; the second records \<^verbatim>\<open>resolved\<close> both before and after.
\<close>

theorem auto_resolve_duplicate_entry_counterexample:
  "fst (execute_autonomous_action demo_env 1 ''AUTO_RESOLVE'' []
          (demo_db demo_ticket [demo_entry])) = True
   \<and> map before_state (histories (snd (execute_autonomous_action demo_env 1 ''AUTO_RESOLVE'' []
          (demo_db demo_ticket [demo_entry]))))
       = [Some [(''status'', Some ''in_progress'')],
          Some [(''status'', Some ''resolved''), (''assigned_to_id'', None)]]
   \<and> map after_state (histories (snd (execute_autonomous_action demo_env 1 ''AUTO_RESOLVE'' []
          (demo_db demo_ticket [demo_entry]))))
       = [Some [(''status'', Some ''resolved'')],
          Some [(''status'', Some ''resolved''), (''assigned_to_id'', None)]]"
  by (simp add: run_defs demo_defs Let_def)

section \<open>Feedback on a resolution\<close>

lemma find_resolution_upsert:
  "tr_ticket r = k \<Longrightarrow>
   find (\<lambda>x. tr_ticket x = k) (upsert tr_ticket r rows) = Some r"
  using find_upsert_same [of tr_ticket r rows] by simp

text \<open>The resolution row that the endpoint starts from: the stored one, or a new one.\<close>

lemma feedback_run:
  assumes nf: "\<forall>a. \<not> faults e a" and t: "find_ticket d tid = Some t"
  shows "\<exists>r0 d0. resolution_get_or_create e tid ''MANUAL'' d = (Inr r0, d0)
        \<and> tr_ticket r0 = tid
        \<and> r0 = (case find_resolution d tid of Some r \<Rightarrow> r | None \<Rightarrow> new_resolution e tid ''MANUAL'')
        \<and> tickets d0 = tickets d \<and> histories d0 = histories d"
  using nf
  by (auto simp: resolution_get_or_create_def guarded_def find_resolution_def new_resolution_def
      split: option.splits dest: find_key)

text \<open>
  Claim C8. When nothing fails, for a stored ticket: feedback with \<^verbatim>\<open>resolution_confirmed\<close>
  false is accepted, marks the resolution row as reopened at the current time, with the
  feedback text as reason, or \<^verbatim>\<open>User reported issue not resolved\<close> when the request has no
  text, and sets the status of the ticket to \<^verbatim>\<open>escalated\<close>. Feedback with confirmation true
  and satisfaction 5, on a ticket whose resolution row is new or not reopened, leaves
  \<^verbatim>\<open>reopened\<close> false, and \<^verbatim>\<open>was_successful\<close> of the row is true.
\<close>

theorem feedback_reopening:
  assumes "\<forall>a. \<not> faults e a" and "find_ticket d tid = Some t"
  shows "(\<exists>body d' r. submit_resolution_feedback e tid (Some False) score text d = (Ok200 body, d')
            \<and> find_resolution d' tid = Some r
            \<and> reopened r \<and> reopened_at r = Some (now e)
            \<and> reopened_reason r
                = (case text of None \<Rightarrow> ''User reported issue not resolved'' | Some s \<Rightarrow> s)
            \<and> find_ticket d' tid = Some (t\<lparr>status := ''escalated'', updated_at := now e\<rparr>))
       \<and> ((\<forall>r0. find_resolution d tid = Some r0 \<longrightarrow> \<not> reopened r0) \<longrightarrow>
            (\<exists>body d' r. submit_resolution_feedback e tid (Some True) (Some 5) text d = (Ok200 body, d')
               \<and> find_resolution d' tid = Some r
               \<and> \<not> reopened r \<and> was_successful r = Some True
               \<and> find_ticket d' tid = Some t))"
proof -
  have tid: "ticket_id t = tid" using assms(2) by (rule find_ticket_key)
  from feedback_run [OF assms] obtain r0 d0 where
    g: "resolution_get_or_create e tid ''MANUAL'' d = (Inr r0, d0)" and k: "tr_ticket r0 = tid"
    and r0: "r0 = (case find_resolution d tid of Some r \<Rightarrow> r | None \<Rightarrow> new_resolution e tid ''MANUAL'')"
    and fr: "tickets d0 = tickets d" by blast
  from fr assms(2) tid have t0: "find_ticket d0 (ticket_id (t\<lparr>status := ''escalated''\<rparr>)) = Some t"
    by (simp add: find_ticket_def)
  have save: "Ticket_save e (t\<lparr>status := ''escalated''\<rparr>) d0 =
      (Inr (), d0\<lparr>tickets := upsert ticket_id (t\<lparr>status := ''escalated'', updated_at := now e\<rparr>) (tickets d0)\<rparr>)"
    using assms(1) t0 by (simp add: Ticket_save_plain)
  have neg: "\<exists>body d' r. submit_resolution_feedback e tid (Some False) score text d = (Ok200 body, d')
            \<and> find_resolution d' tid = Some r
            \<and> reopened r \<and> reopened_at r = Some (now e)
            \<and> reopened_reason r
                = (case text of None \<Rightarrow> ''User reported issue not resolved'' | Some s \<Rightarrow> s)
            \<and> find_ticket d' tid = Some (t\<lparr>status := ''escalated'', updated_at := now e\<rparr>)"
    using assms tid g k save
      find_upsert_same [of ticket_id "t\<lparr>status := ''escalated'', updated_at := now e\<rparr>" "tickets d0"]
    by (simp add: submit_resolution_feedback_def seq_def ticket_get_def guarded_def Let_def
        resolution_save_def returning_def find_resolution_def find_resolution_upsert find_ticket_def)
  have pos: "\<exists>body d' r. submit_resolution_feedback e tid (Some True) (Some 5) text d = (Ok200 body, d')
               \<and> find_resolution d' tid = Some r
               \<and> \<not> reopened r \<and> was_successful r = Some True
               \<and> find_ticket d' tid = Some t"
    if "\<forall>r0. find_resolution d tid = Some r0 \<longrightarrow> \<not> reopened r0"
  proof -
    from that r0 have nr: "\<not> reopened r0"
      by (cases "find_resolution d tid") (auto simp: new_resolution_def)
    show ?thesis
      using assms tid g k nr fr
      by (simp add: submit_resolution_feedback_def seq_def ticket_get_def guarded_def Let_def
          resolution_save_def returning_def find_resolution_def find_resolution_upsert
          find_ticket_def was_successful_def)
  qed
  from neg pos show ?thesis by blast
qed

text \<open>The sample ticket: the user reports \<^verbatim>\<open>still broken\<close>; or confirms with five stars.\<close>

theorem feedback_reopening_witness:
  "(\<exists>body d' r. submit_resolution_feedback demo_env 1 (Some False) None (Some ''still broken'')
                   (demo_db demo_ticket []) = (Ok200 body, d')
       \<and> find_resolution d' 1 = Some r \<and> reopened r \<and> reopened_reason r = ''still broken''
       \<and> find_ticket d' 1 = Some (demo_ticket\<lparr>status := ''escalated'', updated_at := 100\<rparr>))
   \<and> (\<exists>body d' r. submit_resolution_feedback demo_env 1 (Some True) (Some 5) None
                   (demo_db demo_ticket []) = (Ok200 body, d')
       \<and> find_resolution d' 1 = Some r \<and> \<not> reopened r \<and> was_successful r = Some True)"
proof -
  let ?d = "demo_db demo_ticket []"
  have 1: "\<forall>a. \<not> faults demo_env a" by (simp add: demo_defs)
  have 2: "find_ticket ?d 1 = Some demo_ticket" by (simp add: demo_defs find_ticket_def)
  have 3: "\<forall>r0. find_resolution ?d 1 = Some r0 \<longrightarrow> \<not> reopened r0"
    by (simp add: demo_defs find_resolution_def)
  have 4: "now demo_env = 100" by (simp add: demo_defs)
  from feedback_reopening [OF 1 2, of None "Some ''still broken''", THEN conjunct1]
  have a: "\<exists>body d' r. submit_resolution_feedback demo_env 1 (Some False) None (Some ''still broken'')
                   ?d = (Ok200 body, d')
       \<and> find_resolution d' 1 = Some r \<and> reopened r \<and> reopened_reason r = ''still broken''
       \<and> find_ticket d' 1 = Some (demo_ticket\<lparr>status := ''escalated'', updated_at := 100\<rparr>)"
    unfolding 4 by auto
  from feedback_reopening [OF 1 2, of _ None, THEN conjunct2, THEN mp, OF 3]
  have b: "\<exists>body d' r. submit_resolution_feedback demo_env 1 (Some True) (Some 5) None
                   ?d = (Ok200 body, d')
       \<and> find_resolution d' 1 = Some r \<and> \<not> reopened r \<and> was_successful r = Some True"
    by blast
  from a b show ?thesis by blast
qed

section \<open>Totality of the decision policy\<close>



end
